theory Spec2Isabelle
  imports Complex_Main "HOL-Library.Multiset" "HOL-Library.Log_Nat"
begin

section \<open>JavaScript strings and numbers\<close>

text \<open>
  A JavaScript string is a sequence of UTF-16 code units. The model reads a \<^typ>\<open>char\<close> as a
  code unit below 256, so a \<^typ>\<open>string\<close> is a JavaScript string over that range; code
  units from 256 on are outside the model. \<open>parseInt\<close> returns the mathematical integer
  it read (\<open>None\<close> is \<open>NaN\<close>), which is the value of the JavaScript number for magnitudes
  up to \<open>2 ^ 53\<close>.
\<close>

type_synonym object_id = string

definition is_white_space :: "char \<Rightarrow> bool" where
  \<comment> \<open>WhiteSpace and LineTerminator below 256: TAB, LF, VT, FF, CR, SP, NBSP.\<close>
  "is_white_space c = (of_char c \<in> set [9, 10, 11, 12, 13, 32, 160 :: nat])"

definition trim :: "string \<Rightarrow> string" where
  \<comment> \<open>\<open>String.prototype.trim\<close>\<close>
  "trim s = rev (dropWhile is_white_space (rev (dropWhile is_white_space s)))"

definition lower_char :: "char \<Rightarrow> char" where
  "lower_char c =
     (let n = of_char c :: nat
      in if (65 \<le> n \<and> n \<le> 90) \<or> (192 \<le> n \<and> n \<le> 222 \<and> n \<noteq> 215)
         then char_of (n + 32) else c)"

definition toLowerCase :: "string \<Rightarrow> string" where
  \<comment> \<open>\<open>String.prototype.toLowerCase\<close>\<close>
  "toLowerCase s = map lower_char s"

definition digit_value :: "char \<Rightarrow> nat option" where
  "digit_value c =
     (let n = of_char c :: nat
      in if 48 \<le> n \<and> n \<le> 57 then Some (n - 48)
         else if 97 \<le> n \<and> n \<le> 122 then Some (n - 87)
         else if 65 \<le> n \<and> n \<le> 90 then Some (n - 55)
         else None)"

definition radix_digit :: "nat \<Rightarrow> char \<Rightarrow> bool" where
  "radix_digit R c = (case digit_value c of Some d \<Rightarrow> d < R | None \<Rightarrow> False)"

definition digit_of :: "char \<Rightarrow> nat" where
  "digit_of c = (case digit_value c of Some d \<Rightarrow> d | None \<Rightarrow> 0)"

definition parseInt :: "string \<Rightarrow> int option" where
  \<comment> \<open>\<open>parseInt(string)\<close> with no radix argument: leading white space is skipped, then an
      optional sign, an optional \<open>0x\<close> prefix, and the longest run of digits.\<close>
  "parseInt inputString =
     (let S = dropWhile is_white_space inputString;
          sign = (if take 1 S = ''-'' then - 1 else 1 :: int);
          S1 = (if take 1 S = ''+'' \<or> take 1 S = ''-'' then drop 1 S else S);
          hex = (take 2 S1 = ''0x'' \<or> take 2 S1 = ''0X'');
          R = (if hex then 16 else 10 :: nat);
          S2 = (if hex then drop 2 S1 else S1);
          Z = takeWhile (radix_digit R) S2
      in if Z = [] then None
         else Some (sign * int (foldl (\<lambda>acc c. acc * R + digit_of c) 0 Z)))"

definition or_default :: "int option \<Rightarrow> int \<Rightarrow> int" where
  \<comment> \<open>\<open>x || d\<close> on a number: \<open>NaN\<close> and \<open>0\<close> are falsy.\<close>
  "or_default x d = (case x of None \<Rightarrow> d | Some n \<Rightarrow> if n = 0 then d else n)"

section \<open>Listing endpoints: from the query string to the arguments of the paginated query\<close>

text \<open>
  \<open>req.query\<close>: each of the six parameters the handlers read is absent (\<open>undefined\<close>) or a
  string. A parameter repeated in the URL (an array) is outside the model.
\<close>

record query_params =
  q_limit :: "string option"
  q_page :: "string option"
  q_sort :: "string option"
  q_query :: "string option"
  q_category :: "string option"
  q_status :: "string option"

record product_filter =
  f_category :: "string option"
  f_status :: "bool option"

datatype sort_spec = Unsorted | PriceAsc | PriceDesc

record paginate_args =
  pa_filter :: product_filter
  pa_sort :: sort_spec
  pa_page :: int
  pa_limit :: int

definition parseInt_param :: "string option \<Rightarrow> int option" where
  \<comment> \<open>\<open>parseInt(req.query.x)\<close>: \<open>undefined\<close> is converted to the string \<open>undefined\<close> first.\<close>
  "parseInt_param v = (case v of None \<Rightarrow> parseInt ''undefined'' | Some s \<Rightarrow> parseInt s)"

definition truthy :: "string option \<Rightarrow> bool" where
  \<comment> \<open>a string in a condition: \<open>undefined\<close> and the empty string are falsy\<close>
  "truthy v = (case v of None \<Rightarrow> False | Some s \<Rightarrow> s \<noteq> [])"

definition sort_option :: "string option \<Rightarrow> sort_spec" where
  "sort_option sort_param =
     (if sort_param = Some ''asc'' then PriceAsc
      else if sort_param = Some ''desc'' then PriceDesc
      else Unsorted)"

subsection \<open>\<open>GET /api/products\<close>\<close>

definition api_limit :: "query_params \<Rightarrow> int" where
  "api_limit q = max 1 (or_default (parseInt_param (q_limit q)) 10)"

definition api_page :: "query_params \<Rightarrow> int" where
  "api_page q = max 1 (or_default (parseInt_param (q_page q)) 1)"

definition api_filter :: "query_params \<Rightarrow> product_filter" where
  "api_filter q =
     (let filter0 = \<lparr>f_category = None, f_status = None\<rparr>;
          filter1 = (case q_category q of
                       Some category \<Rightarrow>
                         if category \<noteq> [] then filter0\<lparr>f_category := Some (trim category)\<rparr>
                         else filter0
                     | None \<Rightarrow> filter0);
          filter2 = (case q_status q of
                       Some status \<Rightarrow>
                         filter1\<lparr>f_status :=
                           Some (status = ''true'' \<or> status = ''1'' \<or> status = ''yes'')\<rparr>
                     | None \<Rightarrow> filter1)
      in case q_query q of
           Some query \<Rightarrow>
             if query \<noteq> [] \<and> \<not> truthy (q_category q) \<and> q_status q = None then
               (let queryLower = toLowerCase (trim query)
                in if queryLower = ''true'' \<or> queryLower = ''false''
                      \<or> queryLower = ''disponible'' \<or> queryLower = ''no disponible''
                   then filter2\<lparr>f_status :=
                          Some (queryLower = ''true'' \<or> queryLower = ''disponible'')\<rparr>
                   else filter2\<lparr>f_category := Some (trim query)\<rparr>)
             else filter2
         | None \<Rightarrow> filter2)"

definition api_paginate_args :: "query_params \<Rightarrow> paginate_args" where
  "api_paginate_args q =
     \<lparr>pa_filter = api_filter q, pa_sort = sort_option (q_sort q),
      pa_page = api_page q, pa_limit = api_limit q\<rparr>"

subsection \<open>\<open>GET /products\<close> (the rendered page)\<close>

definition views_limit :: "query_params \<Rightarrow> int" where
  "views_limit q = or_default (parseInt_param (q_limit q)) 10"

definition views_page :: "query_params \<Rightarrow> int" where
  "views_page q = or_default (parseInt_param (q_page q)) 1"

definition views_filter :: "query_params \<Rightarrow> product_filter" where
  "views_filter q =
     (let filter0 = \<lparr>f_category = None, f_status = None\<rparr>;
          filter1 = (case q_category q of
                       Some category \<Rightarrow>
                         if category \<noteq> [] then filter0\<lparr>f_category := Some (trim category)\<rparr>
                         else filter0
                     | None \<Rightarrow> filter0);
          filter2 = (case q_status q of
                       Some status \<Rightarrow>
                         filter1\<lparr>f_status :=
                           Some (status = ''true'' \<or> status = ''1'' \<or> status = ''yes'')\<rparr>
                     | None \<Rightarrow> filter1)
      in case q_query q of
           Some query \<Rightarrow>
             if query \<noteq> [] \<and> \<not> truthy (q_category q) \<and> q_status q = None then
               (let queryLower = toLowerCase (trim query)
                in if queryLower = ''true'' \<or> queryLower = ''false''
                      \<or> queryLower = ''disponible'' \<or> queryLower = ''no disponible''
                   then filter2\<lparr>f_status :=
                          Some (queryLower = ''true'' \<or> queryLower = ''disponible'')\<rparr>
                   else filter2\<lparr>f_category := Some (trim query)\<rparr>)
             else filter2
         | None \<Rightarrow> filter2)"

definition views_paginate_args :: "query_params \<Rightarrow> paginate_args" where
  "views_paginate_args q =
     \<lparr>pa_filter = views_filter q, pa_sort = sort_option (q_sort q),
      pa_page = views_page q, pa_limit = views_limit q\<rparr>"

subsection \<open>The filter in closed form\<close>

definition availability_word :: "string \<Rightarrow> bool" where
  "availability_word w =
     (w = ''true'' \<or> w = ''false'' \<or> w = ''disponible'' \<or> w = ''no disponible'')"

definition query_applies :: "query_params \<Rightarrow> bool" where
  \<comment> \<open>the third \<open>if\<close> of the handlers: \<open>query && !category && status === undefined\<close>\<close>
  "query_applies q = (truthy (q_query q) \<and> \<not> truthy (q_category q) \<and> q_status q = None)"

definition query_word :: "query_params \<Rightarrow> string" where
  "query_word q = (case q_query q of Some query \<Rightarrow> toLowerCase (trim query) | None \<Rightarrow> [])"

section \<open>Request bodies\<close>

text \<open>
  A parsed request body holds JSON values. \<open>JNum n\<close> is a number with the integer value
  \<open>n\<close>, of a magnitude up to \<open>2 ^ 53\<close>; a number with a fractional part is outside the
  model (as a string, \<open>JStr ''2.5''\<close>, it is in it). The keys of an object are distinct.
  A statement that throws is a value of the type \<open>error\<close>.
\<close>

datatype json =
  JUndefined | JNull | JBool bool | JNum int | JStr string
  | JArr "json list" | JObj "(string \<times> json) list"

datatype error =
  CastError | ValidationError "string list" | DuplicateKeyError | StoreError string
  | TypeError | InvalidQuantityError | ProductNotFoundError | ProductNotFoundInCartError

fun field :: "string \<Rightarrow> json \<Rightarrow> json" where
  "field k (JObj kvs) = (case map_of kvs k of Some v \<Rightarrow> v | None \<Rightarrow> JUndefined)"
| "field k v = JUndefined"

fun digits :: "nat \<Rightarrow> string" where
  "digits n =
     (if n < 10 then [char_of (48 + n)] else digits (n div 10) @ [char_of (48 + n mod 10)])"

definition show_int :: "int \<Rightarrow> string" where
  "show_int n = (if n < 0 then CHR ''-'' # digits (nat (- n)) else digits (nat n))"

fun join_comma :: "string list \<Rightarrow> string" where
  "join_comma [] = []"
| "join_comma [s] = s"
| "join_comma (s # t # ts) = s @ '','' @ join_comma (t # ts)"

fun first_error :: "(error + 'a) list \<Rightarrow> error + 'a list" where
  \<comment> \<open>the elements are evaluated in order, and the first one that throws ends the evaluation\<close>
  "first_error [] = Inr []"
| "first_error (Inl e # rs) = Inl e"
| "first_error (Inr x # rs) = (case first_error rs of Inl e \<Rightarrow> Inl e | Inr xs \<Rightarrow> Inr (x # xs))"

fun ToString :: "json \<Rightarrow> error + string" where
  \<comment> \<open>The conversion of a value to a string, as \<open>parseInt\<close> applies it to its argument. An
      array is joined with commas, \<open>null\<close> and \<open>undefined\<close> elements as empty strings. An
      object is converted by its \<open>toString\<close> method: the inherited one gives
      \<open>[object Object]\<close>; a member \<open>toString\<close> of the parsed body hides it and is not a
      function, the inherited \<open>valueOf\<close> returns the object itself, and the conversion throws
      a \<open>TypeError\<close>.\<close>
  "ToString JUndefined = Inr ''undefined''"
| "ToString JNull = Inr ''null''"
| "ToString (JBool b) = Inr (if b then ''true'' else ''false'')"
| "ToString (JNum n) = Inr (show_int n)"
| "ToString (JStr s) = Inr s"
| "ToString (JArr vs) =
     (case first_error (map (\<lambda>v. if v = JUndefined \<or> v = JNull then Inr [] else ToString v) vs) of
        Inl e \<Rightarrow> Inl e
      | Inr strings \<Rightarrow> Inr (join_comma strings))"
| "ToString (JObj kvs) =
     (if ''toString'' \<in> set (map fst kvs) then Inl TypeError else Inr ''[object Object]'')"

section \<open>Numbers in arithmetic\<close>

text \<open>
  A finite Number is the rational it denotes. The result of a multiplication or an addition
  is rounded to the nearest value of the binary64 format, ties to the even significand:
  \<open>fl\<close>. Results from \<open>2 ^ 1024\<close> on (\<open>Infinity\<close>) are outside the model.
\<close>

definition ilog2 :: "rat \<Rightarrow> int" where
  \<comment> \<open>for a positive \<open>x\<close>, the exponent \<open>e\<close> with \<open>2 ^ e \<le> x < 2 ^ (e + 1)\<close>\<close>
  "ilog2 x =
     (let (a, b) = quotient_of x; k = bitlen a - bitlen b
      in if 2 powi k \<le> x then k else k - 1)"

definition round_half_even :: "rat \<Rightarrow> int" where
  "round_half_even m =
     (let n = \<lfloor>m\<rfloor>; r = m - of_int n
      in if r < 1 / 2 then n else if 1 / 2 < r then n + 1 else if even n then n else n + 1)"

definition fl :: "rat \<Rightarrow> rat" where
  \<comment> \<open>53 significant bits; the smallest unit in the last place is \<open>2 ^ - 1074\<close>\<close>
  "fl x =
     (if x = 0 then 0
      else let s = max (ilog2 \<bar>x\<bar> - 52) (- 1074)
           in of_int (round_half_even (x / 2 powi s)) * 2 powi s)"

definition number_times :: "rat \<Rightarrow> rat \<Rightarrow> rat" where
  \<comment> \<open>\<open>a * b\<close> on two Numbers\<close>
  "number_times a b = fl (a * b)"

definition number_plus :: "rat \<Rightarrow> rat \<Rightarrow> rat" where
  \<comment> \<open>\<open>a + b\<close> on two Numbers\<close>
  "number_plus a b = fl (a + b)"

definition toFixed2 :: "rat \<Rightarrow> string" where
  \<comment> \<open>\<open>x.toFixed(2)\<close> for a magnitude below \<open>10 ^ 21\<close>: the integer \<open>n\<close> nearest to
      \<open>100 * x\<close> (the larger one of two), written with a point before its last two
      digits. From \<open>10 ^ 21\<close> on \<open>toFixed\<close> writes an exponent, which is outside the
      model.\<close>
  "toFixed2 x =
     (let n = nat \<lfloor>\<bar>x\<bar> * 100 + 1 / 2\<rfloor>;
          m = digits n;
          m' = (if length m \<le> 2 then replicate (3 - length m) CHR ''0'' @ m else m);
          k = length m'
      in (if x < 0 then ''-'' else []) @ take (k - 2) m' @ ''.'' @ drop (k - 2) m')"

definition decimal_value :: "string \<Rightarrow> nat" where
  "decimal_value ds = foldl (\<lambda>acc c. acc * 10 + digit_of c) 0 ds"

definition parseFloat :: "string \<Rightarrow> rat option" where
  \<comment> \<open>\<open>parseFloat(string)\<close>: leading white space is skipped, then an optional sign, digits,
      and a point with digits; \<open>None\<close> is \<open>NaN\<close>. A literal with an exponent part and
      \<open>Infinity\<close> are outside the model.\<close>
  "parseFloat inputString =
     (let S = dropWhile is_white_space inputString;
          sign = (if take 1 S = ''-'' then - 1 else 1 :: rat);
          S1 = (if take 1 S = ''+'' \<or> take 1 S = ''-'' then drop 1 S else S);
          int_part = takeWhile (radix_digit 10) S1;
          rest = dropWhile (radix_digit 10) S1;
          frac_part =
            (if take 1 rest = ''.'' then takeWhile (radix_digit 10) (drop 1 rest) else [])
      in if int_part = [] \<and> frac_part = [] then None
         else Some (fl (sign * (of_nat (decimal_value int_part)
                                 + of_nat (decimal_value frac_part) / 10 ^ length frac_part))))"

definition plain_digit :: "char \<Rightarrow> bool" where
  \<comment> \<open>a decimal digit, as \<open>toFixed\<close> writes them\<close>
  "plain_digit c =
     (radix_digit 10 c \<and> \<not> is_white_space c \<and> c \<noteq> CHR ''-'' \<and> c \<noteq> CHR ''+'')"

definition add_cents :: "rat \<Rightarrow> nat \<Rightarrow> rat" where
  \<comment> \<open>one step of the sum: the subtotal of \<open>n\<close> cents is read back and added\<close>
  "add_cents s n = number_plus s (fl (of_nat n / 100))"

section \<open>Documents and the store\<close>

text \<open>
  A price is a Number, the rational a binary64 value denotes; a quantity is a Number with
  an integer value, of a magnitude up to \<open>2 ^ 53\<close>.
\<close>

record product =
  p_id :: object_id
  p_title :: string
  p_description :: string
  p_code :: string
  p_price :: rat
  p_status :: bool
  p_stock :: int
  p_category :: string
  p_thumbnails :: "string list"
  createdAt :: nat
  updatedAt :: nat

record line_item =
  li_product :: object_id
  li_quantity :: int

record cart =
  c_id :: object_id
  c_products :: "line_item list"

type_synonym socket_id = string

datatype event =
  Products "product list" | ProductAdded product | ProductDeleted product
  | ProductError error

record app_state =
  catalog :: "product list"
  carts :: "object_id \<rightharpoonup> cart"
  sockets :: "(socket_id \<times> event list) list"

definition is_hex_digit :: "char \<Rightarrow> bool" where
  "is_hex_digit c = radix_digit 16 c"

definition isValidObjectId :: "object_id \<Rightarrow> bool" where
  \<comment> \<open>Modelled from the spec: the identifier format of the store, which the database driver
      checks (\<open>CastError\<close>): 24 hexadecimal digits. An identifier is compared as it is
      written.\<close>
  "isValidObjectId s = (length s = 24 \<and> list_all is_hex_digit s)"

definition Product_findById :: "product list \<Rightarrow> object_id \<Rightarrow> error + product option" where
  \<comment> \<open>Modelled from the spec: \<open>findById\<close> of the database driver fails on an identifier
      that is not in the format, and returns \<open>null\<close> when no document has it.\<close>
  "Product_findById cat pid =
     (if \<not> isValidObjectId pid then Inl CastError
      else Inr (find (\<lambda>p. p_id p = pid) cat))"

definition Cart_findById :: "(object_id \<rightharpoonup> cart) \<Rightarrow> object_id \<Rightarrow> error + cart option" where
  "Cart_findById cs cid = (if \<not> isValidObjectId cid then Inl CastError else Inr (cs cid))"

record populated_item =
  pi_product :: "product option"
  pi_quantity :: int

record populated_cart =
  pc_id :: object_id
  pc_products :: "populated_item list"

definition populate :: "product list \<Rightarrow> cart \<Rightarrow> populated_cart" where
  \<comment> \<open>Modelled from the spec: \<open>populate('products.product')\<close>, the join of the database
      driver. Every reference is replaced by the document it names, or by \<open>null\<close> when
      there is none (the products the rendered cart filters out as deleted).\<close>
  "populate cat c =
     \<lparr>pc_id = c_id c,
      pc_products =
        map (\<lambda>item. \<lparr>pi_product = find (\<lambda>p. p_id p = li_product item) cat,
                       pi_quantity = li_quantity item\<rparr>) (c_products c)\<rparr>"

section \<open>The cart's methods\<close>

text \<open>
  The routes call \<open>cart.addProduct\<close>, \<open>cart.removeProduct\<close>, \<open>cart.updateCart\<close>,
  \<open>cart.updateProductQuantity\<close> and \<open>cart.clearCart\<close>, methods of \<open>models/Cart.model\<close>.
  Each returns the cart it persists, or the error it throws.
\<close>

fun increment_line :: "object_id \<Rightarrow> int \<Rightarrow> line_item list \<Rightarrow> line_item list" where
  "increment_line productId quantity [] = []"
| "increment_line productId quantity (l # ls) =
     (if li_product l = productId then l\<lparr>li_quantity := li_quantity l + quantity\<rparr> # ls
      else l # increment_line productId quantity ls)"

fun set_line :: "object_id \<Rightarrow> int \<Rightarrow> line_item list \<Rightarrow> line_item list" where
  "set_line productId quantity [] = []"
| "set_line productId quantity (l # ls) =
     (if li_product l = productId then l\<lparr>li_quantity := quantity\<rparr> # ls
      else l # set_line productId quantity ls)"

definition has_line :: "object_id \<Rightarrow> cart \<Rightarrow> bool" where
  "has_line productId c = (productId \<in> set (map li_product (c_products c)))"

definition addProduct :: "product list \<Rightarrow> cart \<Rightarrow> object_id \<Rightarrow> int \<Rightarrow> error + cart" where
  \<comment> \<open>Modelled from the spec: \<open>addProduct\<close> of \<open>models/Cart.model\<close>, which is not under
      \<open>src/\<close>. The quantity must be a positive integer; the product must be in the catalog;
      a line item of the product is incremented, else a new one is appended.\<close>
  "addProduct cat c productId quantity =
     (if quantity < 1 then Inl InvalidQuantityError
      else case Product_findById cat productId of
             Inl e \<Rightarrow> Inl e
           | Inr None \<Rightarrow> Inl ProductNotFoundError
           | Inr (Some p) \<Rightarrow>
               if has_line productId c
               then Inr (c\<lparr>c_products := increment_line productId quantity (c_products c)\<rparr>)
               else Inr (c\<lparr>c_products :=
                            c_products c @ [\<lparr>li_product = productId, li_quantity = quantity\<rparr>]\<rparr>))"

definition removeProduct :: "cart \<Rightarrow> object_id \<Rightarrow> error + cart" where
  \<comment> \<open>Modelled from the spec: \<open>removeProduct\<close> of \<open>models/Cart.model\<close>, which is not under
      \<open>src/\<close>. The line item of the product is removed if there is one.\<close>
  "removeProduct c productId =
     Inr (c\<lparr>c_products := filter (\<lambda>l. li_product l \<noteq> productId) (c_products c)\<rparr>)"

definition item_of :: "product list \<Rightarrow> json \<Rightarrow> error + line_item" where
  \<comment> \<open>Modelled from the spec: the validation of one \<open>{product, quantity}\<close> item in
      \<open>updateCart\<close>.\<close>
  "item_of cat item =
     (case field ''product'' item of
        JStr pid \<Rightarrow>
          (case Product_findById cat pid of
             Inl e \<Rightarrow> Inl e
           | Inr None \<Rightarrow> Inl ProductNotFoundError
           | Inr (Some p) \<Rightarrow>
               (case field ''quantity'' item of
                  JNum n \<Rightarrow>
                    if 1 \<le> n then Inr \<lparr>li_product = pid, li_quantity = n\<rparr>
                    else Inl InvalidQuantityError
                | _ \<Rightarrow> Inl InvalidQuantityError))
      | _ \<Rightarrow> Inl CastError)"

fun validate_items :: "product list \<Rightarrow> json list \<Rightarrow> error + line_item list" where
  "validate_items cat [] = Inr []"
| "validate_items cat (item # items) =
     (case item_of cat item of
        Inl e \<Rightarrow> Inl e
      | Inr l \<Rightarrow>
          (case validate_items cat items of
             Inl e \<Rightarrow> Inl e
           | Inr ls \<Rightarrow> Inr (l # ls)))"

definition updateCart :: "product list \<Rightarrow> cart \<Rightarrow> json list \<Rightarrow> error + cart" where
  \<comment> \<open>Modelled from the spec: \<open>updateCart\<close> of \<open>models/Cart.model\<close>, which is not under
      \<open>src/\<close>. Every item is validated before the list of line items is replaced.\<close>
  "updateCart cat c items =
     (case validate_items cat items of
        Inl e \<Rightarrow> Inl e
      | Inr ls \<Rightarrow> Inr (c\<lparr>c_products := ls\<rparr>))"

definition updateProductQuantity :: "cart \<Rightarrow> object_id \<Rightarrow> int \<Rightarrow> error + cart" where
  \<comment> \<open>Modelled from the spec: \<open>updateProductQuantity\<close> of \<open>models/Cart.model\<close>, which is not
      under \<open>src/\<close>. The quantity of an existing line item is set; there is no line item to
      create.\<close>
  "updateProductQuantity c productId quantity =
     (if quantity < 1 then Inl InvalidQuantityError
      else if has_line productId c
      then Inr (c\<lparr>c_products := set_line productId quantity (c_products c)\<rparr>)
      else Inl ProductNotFoundInCartError)"

definition clearCart :: "cart \<Rightarrow> error + cart" where
  \<comment> \<open>Modelled from the spec: \<open>clearCart\<close> of \<open>models/Cart.model\<close>, which is not under
      \<open>src/\<close>.\<close>
  "clearCart c = Inr (c\<lparr>c_products := []\<rparr>)"

section \<open>The cart routes\<close>

datatype message =
  CartNotFound object_id | ProductsFetched | CartIsEmpty | InvalidCartId
  | InvalidCartOrProductId | QuantityMustBePositive | ProductAddedToCart
  | ProductRemovedFromCart | ProductsMustBeArray | CartUpdated | QuantityUpdated
  | CartCleared | ErrorMessage error | InternalError
  | ProductCreated | InvalidProductData "string list" | DuplicateCode json
  | ProductNotFound object_id | ProductUpdated | InvalidProductId
  | InvalidUpdateData "string list" | CodeExists | ProductDeleted_msg

record 'a response =
  http_status :: nat
  payload :: "'a option"
  message :: message

definition respond_error :: "nat \<Rightarrow> message \<Rightarrow> 'a response" where
  "respond_error code m = \<lparr>http_status = code, payload = None, message = m\<rparr>"

definition respond_success :: "nat \<Rightarrow> 'a \<Rightarrow> message \<Rightarrow> 'a response" where
  "respond_success code x m = \<lparr>http_status = code, payload = Some x, message = m\<rparr>"

definition save_cart :: "object_id \<Rightarrow> cart \<Rightarrow> app_state \<Rightarrow> app_state" where
  "save_cart cid c st = st\<lparr>carts := (carts st)(cid \<mapsto> c)\<rparr>"

definition get_cart :: "object_id \<Rightarrow> app_state \<Rightarrow> populated_cart response" where
  \<comment> \<open>\<open>GET /api/carts/:cid\<close>\<close>
  "get_cart cid st =
     (case Cart_findById (carts st) cid of
        Inl e \<Rightarrow>
          if e = CastError then respond_error 400 InvalidCartId
          else respond_error 500 InternalError
      | Inr None \<Rightarrow> respond_error 404 (CartNotFound cid)
      | Inr (Some c) \<Rightarrow>
          (let cart = populate (catalog st) c
           in respond_success 200 cart
                (if length (pc_products cart) > 0 then ProductsFetched else CartIsEmpty)))"

definition Number_isInteger :: "int \<Rightarrow> bool" where
  \<comment> \<open>\<open>Number.isInteger\<close> of a number read by \<open>parseInt\<close>: a magnitude that rounds beyond the
      largest finite number is \<open>Infinity\<close>, which is not an integer.\<close>
  "Number_isInteger n = (\<bar>n\<bar> < 2 ^ 1024 - 2 ^ 970)"

definition add_quantity :: "json \<Rightarrow> error + int" where
  \<comment> \<open>The first statements of \<open>POST /api/carts/:cid/product/:pid\<close>:
      \<open>quantity = parseInt(req.body.quantity) || 1\<close>, then the check
      \<open>quantity < 1 || !Number.isInteger(quantity)\<close>. \<open>parseInt\<close> converts its argument to a
      string first; when that throws, the error goes to the \<open>catch\<close> block. The check fails
      with \<open>InvalidQuantityError\<close>.\<close>
  "add_quantity body_quantity =
     (case ToString body_quantity of
        Inl e \<Rightarrow> Inl e
      | Inr inputString \<Rightarrow>
          (let quantity = or_default (parseInt inputString) 1
           in if quantity < 1 \<or> \<not> Number_isInteger quantity then Inl InvalidQuantityError
              else Inr quantity))"

definition post_cart_product ::
  "object_id \<Rightarrow> object_id \<Rightarrow> json \<Rightarrow> app_state \<Rightarrow> app_state \<times> populated_cart response" where
  \<comment> \<open>\<open>POST /api/carts/:cid/product/:pid\<close>\<close>
  "post_cart_product cid pid body_quantity st =
     (case add_quantity body_quantity of
        Inl e \<Rightarrow>
          if e = InvalidQuantityError then (st, respond_error 400 QuantityMustBePositive)
          else if e = CastError then (st, respond_error 400 InvalidCartOrProductId)
          else (st, respond_error 400 (ErrorMessage e))
      | Inr quantity \<Rightarrow>
          (case Cart_findById (carts st) cid of
             Inl e \<Rightarrow>
               if e = CastError then (st, respond_error 400 InvalidCartOrProductId)
               else (st, respond_error 400 (ErrorMessage e))
           | Inr None \<Rightarrow> (st, respond_error 404 (CartNotFound cid))
           | Inr (Some cart) \<Rightarrow>
               (case addProduct (catalog st) cart pid quantity of
                  Inl e \<Rightarrow>
                    if e = CastError then (st, respond_error 400 InvalidCartOrProductId)
                    else (st, respond_error 400 (ErrorMessage e))
                | Inr cart' \<Rightarrow>
                    (save_cart cid cart' st,
                     respond_success 200 (populate (catalog st) cart') ProductAddedToCart))))"

definition delete_cart_product ::
  "object_id \<Rightarrow> object_id \<Rightarrow> app_state \<Rightarrow> app_state \<times> populated_cart response" where
  \<comment> \<open>\<open>DELETE /api/carts/:cid/products/:pid\<close>\<close>
  "delete_cart_product cid pid st =
     (case Cart_findById (carts st) cid of
        Inl e \<Rightarrow>
          if e = CastError then (st, respond_error 400 InvalidCartOrProductId)
          else (st, respond_error 400 (ErrorMessage e))
      | Inr None \<Rightarrow> (st, respond_error 404 (CartNotFound cid))
      | Inr (Some cart) \<Rightarrow>
          (case removeProduct cart pid of
             Inl e \<Rightarrow>
               if e = CastError then (st, respond_error 400 InvalidCartOrProductId)
               else (st, respond_error 400 (ErrorMessage e))
           | Inr cart' \<Rightarrow>
               (save_cart cid cart' st,
                respond_success 200 (populate (catalog st) cart') ProductRemovedFromCart)))"

definition put_cart ::
  "object_id \<Rightarrow> json \<Rightarrow> app_state \<Rightarrow> app_state \<times> populated_cart response" where
  \<comment> \<open>\<open>PUT /api/carts/:cid\<close>; the second argument is \<open>req.body.products\<close>.\<close>
  "put_cart cid products st =
     (case products of
        JArr items \<Rightarrow>
          (case Cart_findById (carts st) cid of
             Inl e \<Rightarrow>
               if e = CastError then (st, respond_error 400 InvalidCartId)
               else (st, respond_error 400 (ErrorMessage e))
           | Inr None \<Rightarrow> (st, respond_error 404 (CartNotFound cid))
           | Inr (Some cart) \<Rightarrow>
               (case updateCart (catalog st) cart items of
                  Inl e \<Rightarrow>
                    if e = CastError then (st, respond_error 400 InvalidCartId)
                    else (st, respond_error 400 (ErrorMessage e))
                | Inr cart' \<Rightarrow>
                    (save_cart cid cart' st,
                     respond_success 200 (populate (catalog st) cart') CartUpdated)))
      | _ \<Rightarrow> (st, respond_error 400 ProductsMustBeArray))"

definition put_cart_product ::
  "object_id \<Rightarrow> object_id \<Rightarrow> json \<Rightarrow> app_state \<Rightarrow> app_state \<times> populated_cart response" where
  \<comment> \<open>\<open>PUT /api/carts/:cid/products/:pid\<close>; the third argument is \<open>req.body.quantity\<close>,
      which must be a number with an integer value, at least 1.\<close>
  "put_cart_product cid pid body_quantity st =
     (case body_quantity of
        JNum quantity \<Rightarrow>
          if quantity < 1 then (st, respond_error 400 QuantityMustBePositive)
          else
            (case Cart_findById (carts st) cid of
               Inl e \<Rightarrow>
                 if e = CastError then (st, respond_error 400 InvalidCartOrProductId)
                 else (st, respond_error 400 (ErrorMessage e))
             | Inr None \<Rightarrow> (st, respond_error 404 (CartNotFound cid))
             | Inr (Some cart) \<Rightarrow>
                 (case updateProductQuantity cart pid quantity of
                    Inl e \<Rightarrow>
                      if e = CastError then (st, respond_error 400 InvalidCartOrProductId)
                      else (st, respond_error 400 (ErrorMessage e))
                  | Inr cart' \<Rightarrow>
                      (save_cart cid cart' st,
                       respond_success 200 (populate (catalog st) cart') QuantityUpdated)))
      | _ \<Rightarrow> (st, respond_error 400 QuantityMustBePositive))"

definition delete_cart :: "object_id \<Rightarrow> app_state \<Rightarrow> app_state \<times> cart response" where
  \<comment> \<open>\<open>DELETE /api/carts/:cid\<close>\<close>
  "delete_cart cid st =
     (case Cart_findById (carts st) cid of
        Inl e \<Rightarrow>
          if e = CastError then (st, respond_error 400 InvalidCartId)
          else (st, respond_error 500 InternalError)
      | Inr None \<Rightarrow> (st, respond_error 404 (CartNotFound cid))
      | Inr (Some cart) \<Rightarrow>
          (case clearCart cart of
             Inl e \<Rightarrow>
               if e = CastError then (st, respond_error 400 InvalidCartId)
               else (st, respond_error 500 InternalError)
           | Inr cart' \<Rightarrow> (save_cart cid cart' st, respond_success 200 cart' CartCleared)))"

subsection \<open>The items of \<open>PUT /api/carts/:cid\<close>\<close>

definition item_valid :: "product list \<Rightarrow> json \<Rightarrow> bool" where
  \<comment> \<open>an item whose product is an identifier of the catalog and whose quantity is a
      positive integer\<close>
  "item_valid cat item =
     (case field ''product'' item of
        JStr pid \<Rightarrow>
          isValidObjectId pid \<and> pid \<in> set (map p_id cat)
          \<and> (case field ''quantity'' item of JNum n \<Rightarrow> 1 \<le> n | _ \<Rightarrow> False)
      | _ \<Rightarrow> False)"

definition line_of_item :: "json \<Rightarrow> line_item" where
  "line_of_item item =
     \<lparr>li_product = (case field ''product'' item of JStr pid \<Rightarrow> pid | _ \<Rightarrow> []),
      li_quantity = (case field ''quantity'' item of JNum n \<Rightarrow> n | _ \<Rightarrow> 0)\<rparr>"

section \<open>The rendered cart\<close>

text \<open>
  \<open>GET /carts/:cid\<close> of the views router reads the cart with its products resolved, keeps
  the line items whose product was found, and gives the template one row per line item
  kept: the fields of the product, the quantity, and the subtotal as the string
  \<open>toFixed(2)\<close> returns. The total is the sum of the subtotals read back with
  \<open>parseFloat\<close>, again as a string. Prices and quantities are Numbers.
\<close>

record cart_row =
  row_product :: product
  row_quantity :: int
  row_subtotal :: string

record cart_page =
  page_cartId :: object_id
  page_products :: "cart_row list"
  page_hasProducts :: bool
  page_total :: string

datatype rendered = Cart_page cart_page | Error_page nat

definition productsWithSubtotal :: "populated_item list \<Rightarrow> cart_row list" where
  \<comment> \<open>\<open>cart.products.filter(item => item.product).map(...)\<close>\<close>
  "productsWithSubtotal items =
     List.map_filter
       (\<lambda>item. case pi_product item of
                 None \<Rightarrow> None
               | Some p \<Rightarrow>
                   Some \<lparr>row_product = p, row_quantity = pi_quantity item,
                         row_subtotal =
                           toFixed2 (number_times (p_price p) (of_int (pi_quantity item)))\<rparr>)
       items"

definition sum_subtotals :: "cart_row list \<Rightarrow> rat option" where
  \<comment> \<open>\<open>reduce((sum, p) => sum + parseFloat(p.subtotal), 0)\<close>; \<open>None\<close> is \<open>NaN\<close>\<close>
  "sum_subtotals rows =
     foldl (\<lambda>sum p. case sum of
                        None \<Rightarrow> None
                      | Some a \<Rightarrow>
                          (case parseFloat (row_subtotal p) of
                             None \<Rightarrow> None
                           | Some b \<Rightarrow> Some (number_plus a b)))
       (Some 0) rows"

definition total_of :: "cart_row list \<Rightarrow> string" where
  "total_of rows = (case sum_subtotals rows of None \<Rightarrow> ''NaN'' | Some t \<Rightarrow> toFixed2 t)"

definition get_cart_view :: "object_id \<Rightarrow> app_state \<Rightarrow> rendered" where
  \<comment> \<open>\<open>GET /carts/:cid\<close>\<close>
  "get_cart_view cid st =
     (case Cart_findById (carts st) cid of
        Inl e \<Rightarrow> if e = CastError then Error_page 400 else Error_page 500
      | Inr None \<Rightarrow> Error_page 404
      | Inr (Some c) \<Rightarrow>
          (let cart = populate (catalog st) c;
               rows = productsWithSubtotal (pc_products cart)
           in Cart_page
                \<lparr>page_cartId = cid, page_products = rows,
                 page_hasProducts = (length rows > 0), page_total = total_of rows\<rparr>))"

definition price_cents :: "product \<Rightarrow> nat" where
  \<comment> \<open>the price in cents, to the nearest cent\<close>
  "price_cents p = nat \<lfloor>p_price p * 100 + 1 / 2\<rfloor>"

definition cents_priced :: "product \<Rightarrow> bool" where
  \<comment> \<open>the price is the Number nearest to a whole number of cents, as a price entered with
      two decimals is\<close>
  "cents_priced p = (p_price p = fl (of_nat (price_cents p) / 100))"

definition row_cents :: "cart_row \<Rightarrow> nat" where
  "row_cents r = price_cents (row_product r) * nat (row_quantity r)"

definition exact_rows :: "cart_row list \<Rightarrow> bool" where
  \<comment> \<open>at most 1000 rows, prices in whole cents, quantities from 1, and a sum of at most
      \<open>10 ^ 9\<close> (\<open>10 ^ 11\<close> cents)\<close>
  "exact_rows rows =
     (list_all (\<lambda>r. cents_priced (row_product r) \<and> 1 \<le> row_quantity r) rows
      \<and> length rows \<le> 1000 \<and> sum_list (map row_cents rows) \<le> 10 ^ 11)"

definition computed_row :: "cart_row \<Rightarrow> bool" where
  \<comment> \<open>the subtotal of the row is the product the route computes, written by \<open>toFixed(2)\<close>\<close>
  "computed_row r =
     (row_subtotal r
        = toFixed2 (number_times (p_price (row_product r)) (of_int (row_quantity r))))"

section \<open>Catalog mutations and the broadcast\<close>

text \<open>
  The operations of the \<open>Product\<close> model (\<open>save\<close>, \<open>findByIdAndUpdate\<close>,
  \<open>findByIdAndDelete\<close>, \<open>find\<close>) belong to \<open>models/Product.model\<close> and the database driver.
  The handlers take them as a parameter. A write maps the catalog to an error, to \<open>None\<close>
  when no document has the identifier, or to the document and the catalog after the write.
  Reading the list of products back is a call to the store of its own, awaited after the
  write inside the same \<open>try\<close>: it fails with the error the model gives for the catalog, or
  returns every product, the most recently created first. \<open>initializeSampleData\<close> inserts
  the example products before the server listens, when no socket is connected; it is not a
  request.
\<close>

record product_model =
  pm_save :: "json \<Rightarrow> product list \<Rightarrow> error + (product \<times> product list)"
  pm_findByIdAndUpdate ::
    "object_id \<Rightarrow> json \<Rightarrow> product list \<Rightarrow> error + (product \<times> product list) option"
  pm_findByIdAndDelete ::
    "object_id \<Rightarrow> product list \<Rightarrow> error + (product \<times> product list) option"
  pm_find_error :: "product list \<Rightarrow> error option"

definition find_sorted :: "product list \<Rightarrow> product list" where
  \<comment> \<open>the documents \<open>find().sort({ createdAt: -1 })\<close> returns when it succeeds\<close>
  "find_sorted cat = rev (sort_key createdAt cat)"

definition Product_find_sorted :: "product_model \<Rightarrow> product list \<Rightarrow> error + product list" where
  \<comment> \<open>\<open>await Product.find().sort({ createdAt: -1 }).lean()\<close>\<close>
  "Product_find_sorted M cat =
     (case pm_find_error M cat of Some e \<Rightarrow> Inl e | None \<Rightarrow> Inr (find_sorted cat))"

definition io_emit :: "event \<Rightarrow> app_state \<Rightarrow> app_state" where
  \<comment> \<open>\<open>io.emit\<close>: the event goes to every connected socket.\<close>
  "io_emit ev st = st\<lparr>sockets := map (\<lambda>(sid, inbox). (sid, inbox @ [ev])) (sockets st)\<rparr>"

definition socket_emit :: "socket_id \<Rightarrow> event \<Rightarrow> app_state \<Rightarrow> app_state" where
  \<comment> \<open>\<open>socket.emit\<close>: the event goes to one socket.\<close>
  "socket_emit s ev st =
     st\<lparr>sockets :=
          map (\<lambda>(sid, inbox). if sid = s then (sid, inbox @ [ev]) else (sid, inbox))
            (sockets st)\<rparr>"

definition strip_keys :: "string list \<Rightarrow> json \<Rightarrow> json" where
  \<comment> \<open>\<open>delete req.body.k\<close> for each of the keys\<close>
  "strip_keys ks body =
     (case body of JObj kvs \<Rightarrow> JObj (filter (\<lambda>(k, v). k \<notin> set ks) kvs) | _ \<Rightarrow> body)"

definition post_product_catch :: "json \<Rightarrow> error \<Rightarrow> product response" where
  \<comment> \<open>the \<open>catch\<close> block of \<open>POST /api/products\<close>\<close>
  "post_product_catch body e =
     (case e of
        ValidationError errors \<Rightarrow> respond_error 400 (InvalidProductData errors)
      | DuplicateKeyError \<Rightarrow> respond_error 400 (DuplicateCode (field ''code'' body))
      | _ \<Rightarrow> respond_error 500 (ErrorMessage e))"

definition post_product ::
  "product_model \<Rightarrow> json \<Rightarrow> app_state \<Rightarrow> app_state \<times> product response" where
  \<comment> \<open>\<open>POST /api/products\<close>\<close>
  "post_product M body st =
     (case pm_save M body (catalog st) of
        Inl e \<Rightarrow> (st, post_product_catch body e)
      | Inr (newProduct, cat') \<Rightarrow>
          (case Product_find_sorted M cat' of
             Inl e \<Rightarrow> (st\<lparr>catalog := cat'\<rparr>, post_product_catch body e)
           | Inr products \<Rightarrow>
               (io_emit (Products products) (st\<lparr>catalog := cat'\<rparr>),
                respond_success 201 newProduct ProductCreated)))"

definition put_product_catch :: "error \<Rightarrow> product response" where
  \<comment> \<open>the \<open>catch\<close> block of \<open>PUT /api/products/:pid\<close>\<close>
  "put_product_catch e =
     (case e of
        CastError \<Rightarrow> respond_error 400 InvalidProductId
      | ValidationError errors \<Rightarrow> respond_error 400 (InvalidUpdateData errors)
      | DuplicateKeyError \<Rightarrow> respond_error 400 CodeExists
      | _ \<Rightarrow> respond_error 500 InternalError)"

definition put_product ::
  "product_model \<Rightarrow> object_id \<Rightarrow> json \<Rightarrow> app_state \<Rightarrow> app_state \<times> product response" where
  \<comment> \<open>\<open>PUT /api/products/:pid\<close>\<close>
  "put_product M pid body st =
     (case pm_findByIdAndUpdate M pid
             (strip_keys [''_id'', ''createdAt'', ''updatedAt''] body) (catalog st) of
        Inl e \<Rightarrow> (st, put_product_catch e)
      | Inr None \<Rightarrow> (st, respond_error 404 (ProductNotFound pid))
      | Inr (Some (updatedProduct, cat')) \<Rightarrow>
          (case Product_find_sorted M cat' of
             Inl e \<Rightarrow> (st\<lparr>catalog := cat'\<rparr>, put_product_catch e)
           | Inr products \<Rightarrow>
               (io_emit (Products products) (st\<lparr>catalog := cat'\<rparr>),
                respond_success 200 updatedProduct ProductUpdated)))"

definition delete_product_catch :: "error \<Rightarrow> product response" where
  \<comment> \<open>the \<open>catch\<close> block of \<open>DELETE /api/products/:pid\<close>\<close>
  "delete_product_catch e =
     (case e of
        CastError \<Rightarrow> respond_error 400 InvalidProductId
      | _ \<Rightarrow> respond_error 500 InternalError)"

definition delete_product ::
  "product_model \<Rightarrow> object_id \<Rightarrow> app_state \<Rightarrow> app_state \<times> product response" where
  \<comment> \<open>\<open>DELETE /api/products/:pid\<close>\<close>
  "delete_product M pid st =
     (case pm_findByIdAndDelete M pid (catalog st) of
        Inl e \<Rightarrow> (st, delete_product_catch e)
      | Inr None \<Rightarrow> (st, respond_error 404 (ProductNotFound pid))
      | Inr (Some (deletedProduct, cat')) \<Rightarrow>
          (case Product_find_sorted M cat' of
             Inl e \<Rightarrow> (st\<lparr>catalog := cat'\<rparr>, delete_product_catch e)
           | Inr products \<Rightarrow>
               (io_emit (Products products) (st\<lparr>catalog := cat'\<rparr>),
                respond_success 200 deletedProduct ProductDeleted_msg)))"

definition on_connection :: "product_model \<Rightarrow> socket_id \<Rightarrow> app_state \<Rightarrow> app_state" where
  \<comment> \<open>\<open>io.on('connection')\<close>: the new socket gets the list, or nothing when the list
      cannot be read (the error is logged).\<close>
  "on_connection M s st =
     (let st' = st\<lparr>sockets := sockets st @ [(s, [])]\<rparr>
      in case Product_find_sorted M (catalog st) of
           Inl e \<Rightarrow> st'
         | Inr products \<Rightarrow> socket_emit s (Products products) st')"

definition on_disconnect :: "socket_id \<Rightarrow> app_state \<Rightarrow> app_state" where
  "on_disconnect s st = st\<lparr>sockets := filter (\<lambda>(sid, inbox). sid \<noteq> s) (sockets st)\<rparr>"

definition on_addProduct :: "product_model \<Rightarrow> socket_id \<Rightarrow> json \<Rightarrow> app_state \<Rightarrow> app_state" where
  \<comment> \<open>the socket event \<open>addProduct\<close>\<close>
  "on_addProduct M s productData st =
     (case pm_save M productData (catalog st) of
        Inl e \<Rightarrow> socket_emit s (ProductError e) st
      | Inr (newProduct, cat') \<Rightarrow>
          (case Product_find_sorted M cat' of
             Inl e \<Rightarrow> socket_emit s (ProductError e) (st\<lparr>catalog := cat'\<rparr>)
           | Inr products \<Rightarrow>
               socket_emit s (ProductAdded newProduct)
                 (io_emit (Products products) (st\<lparr>catalog := cat'\<rparr>))))"

definition on_deleteProduct ::
  "product_model \<Rightarrow> socket_id \<Rightarrow> object_id \<Rightarrow> app_state \<Rightarrow> app_state" where
  \<comment> \<open>the socket event \<open>deleteProduct\<close>\<close>
  "on_deleteProduct M s productId st =
     (case pm_findByIdAndDelete M productId (catalog st) of
        Inl e \<Rightarrow> socket_emit s (ProductError e) st
      | Inr None \<Rightarrow> socket_emit s (ProductError ProductNotFoundError) st
      | Inr (Some (deletedProduct, cat')) \<Rightarrow>
          (case Product_find_sorted M cat' of
             Inl e \<Rightarrow> socket_emit s (ProductError e) (st\<lparr>catalog := cat'\<rparr>)
           | Inr products \<Rightarrow>
               socket_emit s (ProductDeleted deletedProduct)
                 (io_emit (Products products) (st\<lparr>catalog := cat'\<rparr>))))"

datatype mutation =
  HttpPost json | HttpPut object_id json | HttpDelete object_id
  | SocketAdd socket_id json | SocketDelete socket_id object_id

fun handle :: "product_model \<Rightarrow> mutation \<Rightarrow> app_state \<Rightarrow> app_state" where
  "handle M (HttpPost body) st = fst (post_product M body st)"
| "handle M (HttpPut pid body) st = fst (put_product M pid body st)"
| "handle M (HttpDelete pid) st = fst (delete_product M pid st)"
| "handle M (SocketAdd s productData) st = on_addProduct M s productData st"
| "handle M (SocketDelete s productId) st = on_deleteProduct M s productId st"

fun answer :: "product_model \<Rightarrow> mutation \<Rightarrow> app_state \<Rightarrow> nat option" where
  \<comment> \<open>the status of the HTTP response; a socket event has none\<close>
  "answer M (HttpPost body) st = Some (http_status (snd (post_product M body st)))"
| "answer M (HttpPut pid body) st = Some (http_status (snd (put_product M pid body st)))"
| "answer M (HttpDelete pid) st = Some (http_status (snd (delete_product M pid st)))"
| "answer M (SocketAdd s productData) st = None"
| "answer M (SocketDelete s productId) st = None"

fun written :: "product_model \<Rightarrow> mutation \<Rightarrow> product list \<Rightarrow> product list option" where
  \<comment> \<open>the catalog after the write of a request, \<open>None\<close> when the store wrote nothing\<close>
  "written M (HttpPost body) cat =
     (case pm_save M body cat of Inl e \<Rightarrow> None | Inr (p, cat') \<Rightarrow> Some cat')"
| "written M (HttpPut pid body) cat =
     (case pm_findByIdAndUpdate M pid (strip_keys [''_id'', ''createdAt'', ''updatedAt''] body) cat of
        Inl e \<Rightarrow> None | Inr None \<Rightarrow> None | Inr (Some (p, cat')) \<Rightarrow> Some cat')"
| "written M (HttpDelete pid) cat =
     (case pm_findByIdAndDelete M pid cat of
        Inl e \<Rightarrow> None | Inr None \<Rightarrow> None | Inr (Some (p, cat')) \<Rightarrow> Some cat')"
| "written M (SocketAdd s productData) cat =
     (case pm_save M productData cat of Inl e \<Rightarrow> None | Inr (p, cat') \<Rightarrow> Some cat')"
| "written M (SocketDelete s productId) cat =
     (case pm_findByIdAndDelete M productId cat of
        Inl e \<Rightarrow> None | Inr None \<Rightarrow> None | Inr (Some (p, cat')) \<Rightarrow> Some cat')"

fun error_reply :: "mutation \<Rightarrow> error \<Rightarrow> app_state \<Rightarrow> app_state" where
  \<comment> \<open>what the sockets receive from a request that ends in its \<open>catch\<close> block: the socket
      that sent an event gets \<open>productError\<close>, and no socket gets anything else\<close>
  "error_reply (SocketAdd s productData) e st = socket_emit s (ProductError e) st"
| "error_reply (SocketDelete s productId) e st = socket_emit s (ProductError e) st"
| "error_reply r e st = st"

definition newest_first :: "product list \<Rightarrow> bool" where
  "newest_first ps = sorted_wrt (\<lambda>a b. createdAt b \<le> createdAt a) ps"

definition delivered ::
  "product list \<Rightarrow> (socket_id \<times> event list) list \<Rightarrow> (socket_id \<times> event list) list \<Rightarrow> bool" where
  \<comment> \<open>the same sockets are connected, and the first event each has received since is the
      list of products\<close>
  "delivered snapshot before after =
     list_all2 (\<lambda>(sid, inbox) (sid', inbox').
         sid' = sid \<and> take (Suc (length inbox)) inbox' = inbox @ [Products snapshot])
       before after"

section \<open>Example data\<close>

text \<open>
  Two of the products \<open>initializeSampleData\<close> inserts at the first start, with identifiers and
  timestamps as the store assigns them, the empty cart it creates, and two connected sockets.
\<close>

definition macbook :: product where
  "macbook =
     \<lparr>p_id = ''64b000000000000000000001'', p_title = ''MacBook Pro 16'',
      p_description = ''Laptop profesional Apple con chip M3 Pro'',
      p_code = ''APPLE-MBP-001'', p_price = fl (249999 / 100), p_status = True, p_stock = 15,
      p_category = ''Laptops'',
      p_thumbnails = [''macbook-pro-space-black.jpg'', ''macbook-pro-silver.jpg''],
      createdAt = 1000, updatedAt = 1000\<rparr>"

definition galaxy :: product where
  "galaxy =
     \<lparr>p_id = ''64b000000000000000000002'', p_title = ''Samsung Galaxy S24 Ultra'',
      p_description = ''Smartphone Android premium'',
      p_code = ''SAMSUNG-S24-ULTRA'', p_price = fl (129999 / 100), p_status = True, p_stock = 25,
      p_category = ''Smartphones'', p_thumbnails = [''galaxy-s24-ultra-titanium.jpg''],
      createdAt = 1001, updatedAt = 1001\<rparr>"

definition new_cart :: "object_id \<Rightarrow> cart" where
  \<comment> \<open>\<open>new Cart()\<close>\<close>
  "new_cart cid = \<lparr>c_id = cid, c_products = []\<rparr>"

definition seeded :: app_state where
  "seeded =
     \<lparr>catalog = [macbook, galaxy],
      carts = [''64c000000000000000000001'' \<mapsto> new_cart ''64c000000000000000000001''],
      sockets = [(''s1'', []), (''s2'', [])]\<rparr>"

definition item :: "object_id \<Rightarrow> int \<Rightarrow> json" where
  \<comment> \<open>the item \<open>{ "product": pid, "quantity": n }\<close> of a request body\<close>
  "item pid n = JObj [(''product'', JStr pid), (''quantity'', JNum n)]"

definition memory_model :: product_model where
  \<comment> \<open>a store for the examples: it deletes by identifier, accepts no other write, and its
      reads succeed\<close>
  "memory_model =
     \<lparr>pm_save = (\<lambda>body cat. Inl (StoreError ''read only'')),
      pm_findByIdAndUpdate = (\<lambda>pid body cat. Inr None),
      pm_findByIdAndDelete =
        (\<lambda>pid cat.
           case Product_findById cat pid of
             Inl e \<Rightarrow> Inl e
           | Inr None \<Rightarrow> Inr None
           | Inr (Some p) \<Rightarrow> Inr (Some (p, filter (\<lambda>x. p_id x \<noteq> pid) cat))),
      pm_find_error = (\<lambda>cat. None)\<rparr>"

definition unreadable_model :: product_model where
  \<comment> \<open>the same store when the connection is lost after a write: the list cannot be read\<close>
  "unreadable_model = memory_model\<lparr>pm_find_error := (\<lambda>cat. Some (StoreError ''connection lost''))\<rparr>"

definition productA :: product where
  "productA = macbook\<lparr>p_price := 10\<rparr>"

definition productB :: product where
  "productB = galaxy\<lparr>p_price := 5\<rparr>"

definition scenario :: app_state where
  \<comment> \<open>two units of a product of 10.00, one unit of a product that was deleted from the
      catalog, one unit of a product of 5.00\<close>
  "scenario =
     seeded
       \<lparr>catalog := [productA, productB],
        carts := [''64c000000000000000000001'' \<mapsto>
          \<lparr>c_id = ''64c000000000000000000001'',
           c_products = [\<lparr>li_product = ''64b000000000000000000001'', li_quantity = 2\<rparr>,
                         \<lparr>li_product = ''64b0000000000000000000ff'', li_quantity = 1\<rparr>,
                         \<lparr>li_product = ''64b000000000000000000002'', li_quantity = 1\<rparr>]\<rparr>]\<rparr>"

definition costly :: product where
  "costly = macbook\<lparr>p_price := 9007199254740994\<rparr>"

definition costly_cart :: app_state where
  \<comment> \<open>three units of a product whose price is \<open>2 ^ 53 + 2\<close>\<close>
  "costly_cart =
     seeded
       \<lparr>catalog := [costly],
        carts := [''64c000000000000000000001'' \<mapsto>
          \<lparr>c_id = ''64c000000000000000000001'',
           c_products = [\<lparr>li_product = ''64b000000000000000000001'', li_quantity = 3\<rparr>]\<rparr>]\<rparr>"

definition sample_cart :: app_state where
  \<comment> \<open>two units of the first example product and one unit of the second\<close>
  "sample_cart =
     seeded
       \<lparr>carts := [''64c000000000000000000001'' \<mapsto>
          \<lparr>c_id = ''64c000000000000000000001'',
           c_products = [\<lparr>li_product = ''64b000000000000000000001'', li_quantity = 2\<rparr>,
                         \<lparr>li_product = ''64b000000000000000000002'', li_quantity = 1\<rparr>]\<rparr>]\<rparr>"

section \<open>Auxiliary facts\<close>

lemma find_SomeD: "find P xs = Some x \<Longrightarrow> x \<in> set xs \<and> P x"
  by (induction xs) (auto split: if_splits)

lemma views_filter_eq_api_filter: "views_filter q = api_filter q"
  by (simp add: views_filter_def api_filter_def)

lemma api_limit_clamps_views_limit:
  "api_limit q = max 1 (views_limit q) \<and> api_page q = max 1 (views_page q)"
  by (simp add: api_limit_def views_limit_def api_page_def views_page_def)

subsection \<open>Request bodies\<close>

lemma first_error_Inl:
  "first_error rs = Inl e \<Longrightarrow> Inl e \<in> set rs"
  by (induction rs rule: first_error.induct) (auto split: sum.splits)

lemma ToString_error: "ToString v = Inl e \<Longrightarrow> e = TypeError"
proof (induction v arbitrary: e)
  case (JArr vs)
  then obtain v where "v \<in> set vs" and "ToString v = Inl e"
    by (auto split: sum.splits if_splits dest!: first_error_Inl)
  with JArr.IH show ?case
    by blast
next
  case (JObj kvs)
  then show ?case
    by (auto split: if_splits)
qed simp_all

subsection \<open>Line items\<close>

lemma products_increment_line [simp]:
  "map li_product (increment_line p q ls) = map li_product ls"
  by (induction ls) auto

lemma products_set_line [simp]:
  "map li_product (set_line p q ls) = map li_product ls"
  by (induction ls) auto

subsection \<open>The cart in the store\<close>

lemma save_cart_same: "carts st cid = Some c \<Longrightarrow> save_cart cid c st = st"
  by (simp add: save_cart_def fun_upd_idem)

lemma found_carts:
  "Cart_findById cs cid = Inr (Some c) \<Longrightarrow> cs cid = Some c \<and> isValidObjectId cid"
  by (auto simp: Cart_findById_def split: if_splits)

lemma Cart_findById_save:
  "isValidObjectId cid \<Longrightarrow> Cart_findById (carts (save_cart cid c st)) cid = Inr (Some c)"
  by (simp add: Cart_findById_def save_cart_def)

lemma delete_cart_product_found:
  assumes "Cart_findById (carts st) cid = Inr (Some c)"
  shows "delete_cart_product cid pid st =
     (save_cart cid (c\<lparr>c_products := filter (\<lambda>l. li_product l \<noteq> pid) (c_products c)\<rparr>) st,
      respond_success 200
        (populate (catalog st)
           (c\<lparr>c_products := filter (\<lambda>l. li_product l \<noteq> pid) (c_products c)\<rparr>))
        ProductRemovedFromCart)"
  using assms by (simp add: delete_cart_product_def removeProduct_def)

lemma item_of_valid: "item_valid cat x \<Longrightarrow> item_of cat x = Inr (line_of_item x)"
  by (auto simp: item_valid_def item_of_def line_of_item_def Product_findById_def find_None_iff
      split: json.splits option.splits)

lemma item_of_invalid: "\<not> item_valid cat x \<Longrightarrow> \<exists>e. item_of cat x = Inl e"
  by (auto simp: item_valid_def item_of_def Product_findById_def find_None_iff
      split: json.splits option.splits dest: find_SomeD)

lemma validate_all_valid:
  "list_all (item_valid cat) items \<Longrightarrow> validate_items cat items = Inr (map line_of_item items)"
  by (induction items) (auto simp: item_of_valid)

lemma validate_some_invalid:
  "\<not> list_all (item_valid cat) items \<Longrightarrow> \<exists>e. validate_items cat items = Inl e"
proof (induction items)
  case Nil
  then show ?case by simp
next
  case (Cons x items)
  then show ?case
    using item_of_invalid [of cat x]
    by (cases "item_valid cat x") (auto simp: item_of_valid split: sum.splits)
qed

subsection \<open>The broadcast\<close>

lemma find_sorted_all: "mset (find_sorted cat) = mset cat"
  by (simp add: find_sorted_def)

lemma find_sorted_newest_first: "newest_first (find_sorted cat)"
proof -
  have "sorted (map createdAt (sort_key createdAt cat))"
    by (rule sorted_sort_key)
  then have "sorted_wrt (\<lambda>a b. createdAt a \<le> createdAt b) (sort_key createdAt cat)"
    by (simp add: sorted_wrt_map)
  then show ?thesis
    by (simp add: newest_first_def find_sorted_def sorted_wrt_rev)
qed

lemma delivered_io_emit:
  "delivered snapshot (sockets st) (sockets (io_emit (Products snapshot) (st\<lparr>catalog := cat'\<rparr>)))"
  by (auto simp: delivered_def io_emit_def list_all2_map2 intro!: list_all2_refl)

lemma take_append_more:
  assumes "take (Suc (length b)) xs = b @ [x]"
  shows "take (Suc (length b)) (xs @ zs) = b @ [x]"
proof -
  have "length (take (Suc (length b)) xs) = Suc (length b)"
    by (simp add: assms)
  then have "Suc (length b) \<le> length xs"
    by simp
  then show ?thesis
    by (simp add: assms)
qed

lemma delivered_socket_emit:
  "delivered snap before (sockets st) \<Longrightarrow> delivered snap before (sockets (socket_emit s ev st))"
  unfolding delivered_def socket_emit_def
  by (auto simp: list_all2_map2 take_append_more simp del: take_append split: if_splits
      elim!: list_all2_mono)

lemma catalog_io_emit [simp]: "catalog (io_emit ev st) = catalog st"
  by (simp add: io_emit_def)

lemma catalog_socket_emit [simp]: "catalog (socket_emit s ev st) = catalog st"
  by (simp add: socket_emit_def)

lemma sockets_socket_emit_catalog:
  "sockets (socket_emit s ev (st\<lparr>catalog := cat'\<rparr>)) = sockets (socket_emit s ev st)"
  by (simp add: socket_emit_def)

subsection \<open>Rounding\<close>

lemma round_half_even_error: "\<bar>of_int (round_half_even m) - m\<bar> \<le> 1 / 2"
proof -
  have "of_int \<lfloor>m\<rfloor> \<le> m" and "m < of_int \<lfloor>m\<rfloor> + 1"
    by linarith+
  then show ?thesis
    by (auto simp: round_half_even_def Let_def)
qed

lemma round_half_even_nonneg: "0 \<le> m \<Longrightarrow> 0 \<le> round_half_even m"
  by (auto simp: round_half_even_def Let_def)

lemma bitlen_powi:
  assumes "0 < a"
  shows "(2::rat) powi (bitlen a - 1) \<le> of_int a \<and> of_int a < (2::rat) powi (bitlen a)"
proof -
  from bitlen_bounds [OF assms]
  have 1: "2 ^ nat (bitlen a - 1) \<le> a" and 2: "a < 2 ^ nat (bitlen a)"
    by auto
  have pos: "1 \<le> bitlen a"
    using assms bitlen_eq_zero_iff [of a] bitlen_nonneg [of a] by linarith
  have "(of_int (2 ^ nat (bitlen a - 1)) :: rat) \<le> of_int a"
    using 1 by (simp only: of_int_le_iff)
  moreover have "(of_int a :: rat) < of_int (2 ^ nat (bitlen a))"
    using 2 by (simp only: of_int_less_iff)
  moreover have "(2::rat) powi (bitlen a - 1) = 2 ^ nat (bitlen a - 1)"
    using pos by (simp add: power_int_def)
  moreover have "(2::rat) powi (bitlen a) = 2 ^ nat (bitlen a)"
    using pos by (simp add: power_int_def)
  ultimately show ?thesis
    by simp
qed

lemma pow2_diff: "(2::rat) powi (m - n) = 2 powi m / 2 powi n"
  by (rule power_int_diff) simp

lemma ilog2_bounds:
  assumes "0 < x"
  shows "2 powi (ilog2 x) \<le> x \<and> x < 2 powi (ilog2 x + 1)"
proof -
  obtain a b where q: "quotient_of x = (a, b)"
    by (cases "quotient_of x")
  have b: "0 < b"
    using q by (rule quotient_of_denom_pos)
  have x: "x = of_int a / of_int b"
    using q by (rule quotient_of_div)
  have a: "0 < a"
    using assms b x by (simp add: zero_less_divide_iff)
  let ?k = "bitlen a - bitlen b"
  note A = bitlen_powi [OF a] and B = bitlen_powi [OF b]
  have bpos: "(0::rat) < of_int b"
    using b by simp
  have "x < 2 powi (bitlen a) / 2 powi (bitlen b - 1)"
  proof -
    have "x < 2 powi (bitlen a) / of_int b"
      unfolding x using A bpos by (simp add: divide_strict_right_mono)
    also have "\<dots> \<le> 2 powi (bitlen a) / 2 powi (bitlen b - 1)"
      using B bpos b by (intro divide_left_mono) (auto intro!: mult_pos_pos)
    finally show ?thesis .
  qed
  moreover have "?k + 1 = bitlen a - (bitlen b - 1)"
    by simp
  then have "(2::rat) powi (?k + 1) = 2 powi (bitlen a) / 2 powi (bitlen b - 1)"
    by (simp only: pow2_diff)
  ultimately have up: "x < 2 powi (?k + 1)"
    by simp
  have "2 powi (bitlen a - 1) / 2 powi (bitlen b) < x"
  proof -
    have "(2::rat) powi (bitlen a - 1) / 2 powi (bitlen b) < 2 powi (bitlen a - 1) / of_int b"
      using B bpos b by (intro divide_strict_left_mono) (auto intro!: mult_pos_pos)
    also have "\<dots> \<le> x"
      unfolding x using A bpos by (simp add: divide_right_mono)
    finally show ?thesis .
  qed
  moreover have "?k - 1 = (bitlen a - 1) - bitlen b"
    by simp
  then have "(2::rat) powi (?k - 1) = 2 powi (bitlen a - 1) / 2 powi (bitlen b)"
    by (simp only: pow2_diff)
  ultimately have low: "2 powi (?k - 1) < x"
    by simp
  show ?thesis
  proof (cases "2 powi ?k \<le> x")
    case True
    then have "ilog2 x = ?k"
      by (simp add: ilog2_def q)
    with True up show ?thesis by simp
  next
    case False
    then have "ilog2 x = ?k - 1"
      by (simp add: ilog2_def q)
    with False low show ?thesis by simp
  qed
qed

lemma fl_zero [simp]: "fl 0 = 0"
  by (simp add: fl_def)

lemma fl_nonneg: "0 \<le> x \<Longrightarrow> 0 \<le> fl x"
  by (auto simp: fl_def Let_def intro!: mult_nonneg_nonneg round_half_even_nonneg divide_nonneg_pos)

declare digits.simps [simp del]

lemma digit_char:
  assumes "d < 10"
  shows "radix_digit 10 (char_of (48 + d))" and "digit_of (char_of (48 + d)) = d"
    and "\<not> is_white_space (char_of (48 + d))"
    and "char_of (48 + d) \<noteq> CHR ''-''" and "char_of (48 + d) \<noteq> CHR ''+''"
proof -
  have c: "of_char (char_of (48 + d)) = 48 + d"
    using assms by simp
  show "radix_digit 10 (char_of (48 + d))"
    using assms by (simp add: radix_digit_def digit_value_def c)
  show "digit_of (char_of (48 + d)) = d"
    using assms by (simp add: digit_of_def digit_value_def c)
  show "\<not> is_white_space (char_of (48 + d))"
    using assms by (auto simp: is_white_space_def c)
  show "char_of (48 + d) \<noteq> CHR ''-''"
  proof
    assume "char_of (48 + d) = CHR ''-''"
    then have "(of_char (char_of (48 + d)) :: nat) = of_char (CHR ''-'')"
      by simp
    then show False
      unfolding c by simp
  qed
  show "char_of (48 + d) \<noteq> CHR ''+''"
  proof
    assume "char_of (48 + d) = CHR ''+''"
    then have "(of_char (char_of (48 + d)) :: nat) = of_char (CHR ''+'')"
      by simp
    then show False
      unfolding c by simp
  qed
qed

lemma plain_digit_char: "(d::nat) < 10 \<Longrightarrow> plain_digit (char_of (48 + d))"
  by (simp add: plain_digit_def digit_char)

lemma plain_zero: "plain_digit CHR ''0''" and digit_of_zero: "digit_of CHR ''0'' = 0"
  by (simp_all add: plain_digit_def radix_digit_def digit_value_def is_white_space_def digit_of_def)

lemma digits_plain: "list_all plain_digit (digits n)"
proof (induction n rule: digits.induct)
  case (1 n)
  then show ?case
    by (subst digits.simps) (auto simp: plain_digit_char)
qed

lemma digits_nonempty: "digits n \<noteq> []"
  by (subst digits.simps) simp

lemma decimal_value_append:
  "decimal_value (a @ b) = decimal_value a * 10 ^ length b + decimal_value b"
proof -
  define f where "f = (\<lambda>acc c. acc * 10 + digit_of c)"
  have "foldl f s b = s * 10 ^ length b + foldl f 0 b" for s
  proof (induction b arbitrary: s)
    case Nil
    then show ?case by simp
  next
    case (Cons c b)
    have "foldl f s (c # b) = foldl f (s * 10 + digit_of c) b"
      by (simp add: f_def)
    also have "\<dots> = (s * 10 + digit_of c) * 10 ^ length b + foldl f 0 b"
      by (rule Cons)
    finally have 1: "foldl f s (c # b) = (s * 10 + digit_of c) * 10 ^ length b + foldl f 0 b" .
    have "foldl f 0 (c # b) = foldl f (digit_of c) b"
      by (simp add: f_def)
    also have "\<dots> = digit_of c * 10 ^ length b + foldl f 0 b"
      by (rule Cons)
    finally have 2: "foldl f 0 (c # b) = digit_of c * 10 ^ length b + foldl f 0 b" .
    have "(s * 10 + digit_of c) * 10 ^ length b + foldl f 0 b
        = s * 10 ^ length (c # b) + (digit_of c * 10 ^ length b + foldl f 0 b)"
      by (simp add: algebra_simps)
    also have "\<dots> = s * 10 ^ length (c # b) + foldl f 0 (c # b)"
      by (simp only: 2)
    finally show ?case
      by (simp only: 1)
  qed
  from this [of "foldl f 0 a"] show ?thesis
    by (simp add: decimal_value_def f_def)
qed

lemma decimal_value_digits: "decimal_value (digits n) = n"
proof (induction n rule: digits.induct)
  case (1 n)
  show ?case
  proof (cases "n < 10")
    case True
    then show ?thesis
      by (subst digits.simps) (simp add: decimal_value_def digit_char)
  next
    case False
    then have "decimal_value (digits n)
        = decimal_value (digits (n div 10)) * 10 + decimal_value [char_of (48 + n mod 10)]"
      by (subst digits.simps) (simp add: decimal_value_append)
    also have "\<dots> = (n div 10) * 10 + n mod 10"
      using 1 False by (simp add: decimal_value_def digit_char)
    finally show ?thesis
      by simp
  qed
qed

lemma decimal_value_zeros: "decimal_value (replicate k CHR ''0'' @ ds) = decimal_value ds"
proof -
  have "decimal_value (replicate k CHR ''0'') = 0"
    by (induction k) (simp_all add: decimal_value_def digit_of_zero)
  then show ?thesis
    by (simp add: decimal_value_append)
qed


lemma takeWhile_digits_dot:
  assumes "list_all plain_digit a"
  shows "takeWhile (radix_digit 10) (a @ CHR ''.'' # b) = a"
    and "dropWhile (radix_digit 10) (a @ CHR ''.'' # b) = CHR ''.'' # b"
proof -
  have dot: "\<not> radix_digit 10 CHR ''.''"
    by (simp add: radix_digit_def digit_value_def)
  have all: "\<forall>c\<in>set a. radix_digit 10 c"
    using assms by (auto simp: list_all_iff plain_digit_def)
  show "takeWhile (radix_digit 10) (a @ CHR ''.'' # b) = a"
    using all dot by (simp add: takeWhile_append2)
  show "dropWhile (radix_digit 10) (a @ CHR ''.'' # b) = CHR ''.'' # b"
    using all dot by (simp add: dropWhile_append2)
qed

lemma takeWhile_all: "list_all plain_digit b \<Longrightarrow> takeWhile (radix_digit 10) b = b"
  by (auto simp: list_all_iff plain_digit_def takeWhile_eq_all_conv)

lemma parseFloat_fixed:
  assumes "list_all plain_digit a" and "a \<noteq> []" and "list_all plain_digit b"
  shows "parseFloat (a @ ''.'' @ b)
    = Some (fl (of_nat (decimal_value a) + of_nat (decimal_value b) / 10 ^ length b))"
proof -
  obtain c cs where a: "a = c # cs"
    using assms(2) by (cases a) auto
  with assms(1) have c: "plain_digit c"
    by simp
  have 1: "dropWhile is_white_space (a @ ''.'' @ b) = a @ ''.'' @ b"
    using c by (simp add: a plain_digit_def)
  have 2: "take 1 (a @ ''.'' @ b) = [c]"
    by (simp add: a)
  have 3: "[c] \<noteq> ''-''" "[c] \<noteq> ''+''"
    using c by (simp_all add: plain_digit_def)
  show ?thesis
    unfolding parseFloat_def 1 Let_def 2
    using 3 assms
    by (simp add: takeWhile_digits_dot takeWhile_all del: takeWhile_append dropWhile_append)
qed

lemma toFixed2_parts:
  assumes "0 \<le> x"
  shows "\<exists>a b. toFixed2 x = a @ ''.'' @ b \<and> list_all plain_digit a \<and> a \<noteq> []
      \<and> list_all plain_digit b \<and> length b = 2
      \<and> decimal_value a * 100 + decimal_value b = nat \<lfloor>x * 100 + 1 / 2\<rfloor>"
proof -
  let ?n = "nat \<lfloor>x * 100 + 1 / 2\<rfloor>"
  let ?m = "digits ?n"
  let ?m' = "if length ?m \<le> 2 then replicate (3 - length ?m) CHR ''0'' @ ?m else ?m"
  let ?k = "length ?m'"
  have len: "3 \<le> ?k"
    by auto
  have plain: "list_all plain_digit ?m'"
    using digits_plain [of ?n] by (auto simp: list_all_iff plain_zero)
  have val: "decimal_value ?m' = ?n"
    by (simp add: decimal_value_zeros decimal_value_digits)
  let ?a = "take (?k - 2) ?m'" and ?b = "drop (?k - 2) ?m'"
  have ab: "?a @ ?b = ?m'"
    by (rule append_take_drop_id)
  have lb: "length ?b = 2"
    using len by simp
  have "decimal_value (?a @ ?b) = decimal_value ?a * 10 ^ length ?b + decimal_value ?b"
    by (rule decimal_value_append)
  then have v: "decimal_value ?a * 100 + decimal_value ?b = ?n"
    unfolding ab val lb by simp
  have pa: "list_all plain_digit ?a" and pb: "list_all plain_digit ?b"
    using plain by (auto simp: list_all_iff dest: in_set_takeD in_set_dropD)
  have na: "?a \<noteq> []"
    using len by auto
  have "toFixed2 x = ?a @ ''.'' @ ?b"
    using assms by (simp add: toFixed2_def Let_def)
  with pa pb na lb v show ?thesis
    by blast
qed

lemma parseFloat_toFixed2:
  assumes "0 \<le> x"
  shows "parseFloat (toFixed2 x) = Some (fl (of_nat (nat \<lfloor>x * 100 + 1 / 2\<rfloor>) / 100))"
proof -
  from toFixed2_parts [OF assms] obtain a b where
    s: "toFixed2 x = a @ ''.'' @ b" and a: "list_all plain_digit a" "a \<noteq> []"
    and b: "list_all plain_digit b" "length b = 2"
    and v: "decimal_value a * 100 + decimal_value b = nat \<lfloor>x * 100 + 1 / 2\<rfloor>"
    by blast
  have "(of_nat (decimal_value a * 100 + decimal_value b) :: rat) / 100
      = of_nat (decimal_value a) + of_nat (decimal_value b) / 10 ^ length b"
    using b by simp
  then have e: "(of_nat (decimal_value a) :: rat) + of_nat (decimal_value b) / 10 ^ length b
      = of_nat (nat \<lfloor>x * 100 + 1 / 2\<rfloor>) / 100"
    by (simp only: v)
  have "parseFloat (toFixed2 x) = parseFloat (a @ ''.'' @ b)"
    by (simp only: s)
  also have "\<dots> = Some (fl (of_nat (decimal_value a) + of_nat (decimal_value b) / 10 ^ length b))"
    using a b(1) by (rule parseFloat_fixed)
  also have "\<dots> = Some (fl (of_nat (nat \<lfloor>x * 100 + 1 / 2\<rfloor>) / 100))"
    by (simp only: e)
  finally show ?thesis .
qed

lemma fl_error_gen:
  assumes "0 \<le> x"
  shows "\<bar>fl x - x\<bar> \<le> x / 2 ^ 53 + 1 / 2 ^ 60"
proof (cases "x = 0")
  case True
  then show ?thesis by simp
next
  case False
  with assms have pos: "0 < x"
    by simp
  let ?e = "ilog2 x"
  let ?s = "max (?e - 52) (- 1074)"
  let ?p = "(2::rat) powi ?s"
  from ilog2_bounds [OF pos] have lo: "2 powi ?e \<le> x"
    by auto
  have ppos: "0 < ?p"
    by simp
  have fl: "fl x = of_int (round_half_even (x / ?p)) * ?p"
    using pos by (simp add: fl_def Let_def)
  have "of_int (round_half_even (x / ?p)) * ?p - x
      = (of_int (round_half_even (x / ?p)) - x / ?p) * ?p"
    using ppos by (simp add: field_simps)
  then have "\<bar>fl x - x\<bar> = \<bar>of_int (round_half_even (x / ?p)) - x / ?p\<bar> * \<bar>?p\<bar>"
    unfolding fl by (simp only: abs_mult)
  also have "\<dots> = \<bar>of_int (round_half_even (x / ?p)) - x / ?p\<bar> * ?p"
    using ppos by simp
  also have "\<dots> \<le> 1 / 2 * ?p"
    using round_half_even_error [of "x / ?p"] ppos by (intro mult_right_mono) auto
  finally have err: "\<bar>fl x - x\<bar> \<le> 1 / 2 * ?p" .
  show ?thesis
  proof (cases "- 1074 \<le> ?e - 52")
    case True
    then have "?s = ?e - 52"
      by simp
    then have "?p = 2 powi (?e - 52)"
      by simp
    also have "\<dots> = 2 powi ?e / 2 powi 52"
      by (rule pow2_diff)
    finally have "?p = 2 powi ?e / 2 ^ 52"
      by simp
    then have "1 / 2 * ?p = 2 powi ?e / 2 ^ 53"
      by simp
    also have "\<dots> \<le> x / 2 ^ 53"
      using lo by (simp add: divide_right_mono)
    finally have rel: "1 / 2 * ?p \<le> x / 2 ^ 53" .
    have "(0::rat) \<le> 1 / 2 ^ 60"
      by simp
    with err rel show ?thesis
      by linarith
  next
    case False
    then have "?s = - 1074"
      by simp
    then have "?p = 2 powi (- 1074)"
      by simp
    also have "\<dots> \<le> 2 powi (- 59)"
      by (intro power_int_increasing) auto
    also have "\<dots> = 1 / 2 ^ 59"
      by (simp add: power_int_minus_divide)
    finally have small: "1 / 2 * ?p \<le> 1 / 2 ^ 60"
      by simp
    have "0 \<le> x / 2 ^ 53"
      using pos by simp
    with err small show ?thesis
      by linarith
  qed
qed

lemma cents_arith:
  fixes P A F :: rat
  assumes near: "\<bar>P - A / 100\<bar> \<le> A / 100 / 2 ^ 53 + 10 ^ 11 / 2 ^ 60"
    and round: "\<bar>F - P\<bar> \<le> P / 2 ^ 53 + 1 / 2 ^ 60"
    and A: "A \<le> 10 ^ 11" "0 \<le> A" and P: "0 \<le> P"
  shows "\<bar>F * 100 - A\<bar> < 1 / 2" and "\<bar>P * 100 - A\<bar> < 1 / 2"
proof -
  have a: "A / 100 / 2 ^ 53 \<le> 1 / 2 ^ 23"
    using A by simp
  have b: "(10 ^ 11 :: rat) / 2 ^ 60 \<le> 1 / 2 ^ 23"
    by simp
  have ab: "A / 100 / 2 ^ 53 + 10 ^ 11 / 2 ^ 60 \<le> (1::rat) / 2 ^ 22"
    using a b by simp
  have d1: "\<bar>P - A / 100\<bar> \<le> 1 / 2 ^ 22"
    using near ab by linarith
  have l1: "P - A / 100 \<le> 1 / 2 ^ 22" and l2: "A / 100 - P \<le> 1 / 2 ^ 22"
    using d1 by linarith+
  have Pb: "P \<le> 2 ^ 30"
    using l1 A by simp
  have c: "P / 2 ^ 53 \<le> 1 / 2 ^ 23"
    using Pb by simp
  have c': "P / 2 ^ 53 + 1 / 2 ^ 60 \<le> 1 / 2 ^ 22"
    using c by simp
  have l3: "F - P \<le> 1 / 2 ^ 22" and l4: "P - F \<le> 1 / 2 ^ 22"
    using round c' by linarith+
  have "F * 100 - A < 1 / 2" and "A - F * 100 < 1 / 2"
    using l1 l2 l3 l4 by simp_all
  then show "\<bar>F * 100 - A\<bar> < 1 / 2"
    by linarith
  have "P * 100 - A < 1 / 2" and "A - P * 100 < 1 / 2"
    using l1 l2 by simp_all
  then show "\<bar>P * 100 - A\<bar> < 1 / 2"
    by linarith
qed

lemma sum_step_arith:
  fixes S T E m v S' :: rat
  assumes verr: "\<bar>v - m\<bar> \<le> m / 2 ^ 53 + 1 / 2 ^ 60"
    and zerr: "\<bar>S' - (S + v)\<bar> \<le> (S + v) / 2 ^ 53 + 1 / 2 ^ 60"
    and ST: "\<bar>S - T\<bar> \<le> E"
    and b: "m \<le> 10 ^ 9" "T \<le> 10 ^ 9" "E \<le> 1" "0 \<le> m"
  shows "\<bar>S' - (T + m)\<bar> \<le> E + 1 / 2 ^ 21"
proof -
  have a: "m / 2 ^ 53 \<le> 1 / 2 ^ 23"
    using b by simp
  have a': "m / 2 ^ 53 + 1 / 2 ^ 60 \<le> 1 / 2 ^ 23 + 1 / 2 ^ 60"
    using a by simp
  have v1: "v - m \<le> 1 / 2 ^ 23 + 1 / 2 ^ 60" and v2: "m - v \<le> 1 / 2 ^ 23 + 1 / 2 ^ 60"
    using verr a' by linarith+
  have s1: "S - T \<le> E" and s2: "T - S \<le> E"
    using ST by linarith+
  have "S + v \<le> 2 ^ 31"
    using s1 v1 b by simp
  then have c: "(S + v) / 2 ^ 53 \<le> 1 / 2 ^ 22"
    by simp
  have z1: "S' - (S + v) \<le> 1 / 2 ^ 22 + 1 / 2 ^ 60"
    and z2: "S + v - S' \<le> 1 / 2 ^ 22 + 1 / 2 ^ 60"
    using zerr c by linarith+
  have "S' - (T + m) \<le> E + 1 / 2 ^ 21" and "T + m - S' \<le> E + 1 / 2 ^ 21"
    using z1 z2 v1 v2 s1 s2 by simp_all
  then show ?thesis
    by linarith
qed

lemma floor_nearest:
  fixes x :: rat
  assumes "\<bar>x * 100 - of_int N\<bar> < 1 / 2"
  shows "\<lfloor>x * 100 + 1 / 2\<rfloor> = N"
  using assms by (intro floor_unique) linarith+

lemma cents_product:
  fixes c :: nat and q :: int
  assumes p: "p = fl (of_nat c / 100)" and q: "1 \<le> q"
    and bound: "of_nat c * of_int q \<le> (10 ^ 11 :: rat)"
  shows "\<lfloor>fl (p * of_int q) * 100 + 1 / 2\<rfloor> = int c * q"
    and "\<lfloor>p * of_int q * 100 + 1 / 2\<rfloor> = int c * q"
    and "0 \<le> fl (p * of_int q)"
proof -
  define C :: rat where "C = of_nat c"
  define Q :: rat where "Q = of_int q"
  define A where "A = C * Q"
  have C0: "0 \<le> C" and Q1: "1 \<le> Q" and A: "A \<le> 10 ^ 11"
    using q bound by (simp_all add: C_def Q_def A_def)
  have A0: "0 \<le> A"
    using C0 Q1 by (simp add: A_def)
  have N: "of_int (int c * q) = A"
    by (simp add: A_def C_def Q_def)
  have p0: "0 \<le> p"
    unfolding p by (rule fl_nonneg) simp
  then have P0: "0 \<le> p * Q"
    using Q1 by simp
  have near: "\<bar>p * Q - A / 100\<bar> \<le> A / 100 / 2 ^ 53 + 10 ^ 11 / 2 ^ 60"
  proof (cases "c = 0")
    case True
    then have "p = 0" and "A = 0"
      by (simp_all add: p A_def C_def)
    then show ?thesis by simp
  next
    case False
    then have "1 \<le> C"
      by (simp add: C_def)
    then have "Q \<le> A"
      using Q1 by (simp add: A_def mult_le_cancel_right1)
    with A have Qb: "Q \<le> 10 ^ 11"
      by simp
    have "\<bar>p - C / 100\<bar> \<le> C / 100 / 2 ^ 53 + 1 / 2 ^ 60"
      unfolding p C_def by (rule fl_error_gen) simp
    then have "\<bar>p - C / 100\<bar> * Q \<le> (C / 100 / 2 ^ 53 + 1 / 2 ^ 60) * Q"
      using Q1 by (intro mult_right_mono) auto
    moreover have "\<bar>p - C / 100\<bar> * Q = \<bar>p * Q - A / 100\<bar>"
    proof -
      have "p * Q - A / 100 = (p - C / 100) * Q"
        by (simp add: A_def algebra_simps)
      then show ?thesis
        using Q1 by (simp add: abs_mult)
    qed
    moreover have "(C / 100 / 2 ^ 53 + 1 / 2 ^ 60) * Q = A / 100 / 2 ^ 53 + Q / 2 ^ 60"
      by (simp add: A_def algebra_simps)
    ultimately have "\<bar>p * Q - A / 100\<bar> \<le> A / 100 / 2 ^ 53 + Q / 2 ^ 60"
      by simp
    moreover have "Q / 2 ^ 60 \<le> 10 ^ 11 / 2 ^ 60"
      using Qb by (simp add: divide_right_mono)
    ultimately show ?thesis
      by linarith
  qed
  have round: "\<bar>fl (p * Q) - p * Q\<bar> \<le> p * Q / 2 ^ 53 + 1 / 2 ^ 60"
    using P0 by (rule fl_error_gen)
  have 1: "\<bar>fl (p * Q) * 100 - A\<bar> < 1 / 2" and 2: "\<bar>p * Q * 100 - A\<bar> < 1 / 2"
    using near round A A0 P0 by (rule cents_arith)+
  show "\<lfloor>fl (p * of_int q) * 100 + 1 / 2\<rfloor> = int c * q"
    using 1 unfolding N [symmetric] Q_def by (rule floor_nearest)
  show "\<lfloor>p * of_int q * 100 + 1 / 2\<rfloor> = int c * q"
    using 2 unfolding N [symmetric] Q_def by (rule floor_nearest)
  show "0 \<le> fl (p * of_int q)"
    using P0 unfolding Q_def by (rule fl_nonneg)
qed

lemma float_sum_error:
  assumes "0 \<le> S" and "\<bar>S - T\<bar> \<le> E" and "0 \<le> T" and "0 \<le> E"
    and "E + of_nat (length ns) / 2 ^ 21 \<le> 1"
    and "T + of_nat (sum_list ns) / 100 \<le> 10 ^ 9"
  shows "0 \<le> foldl add_cents S ns
    \<and> \<bar>foldl add_cents S ns - (T + of_nat (sum_list ns) / 100)\<bar>
        \<le> E + of_nat (length ns) / 2 ^ 21"
  using assms
proof (induction ns arbitrary: S T E)
  case Nil
  then show ?case by simp
next
  case (Cons n ns)
  define m :: rat where "m = of_nat n / 100"
  define v where "v = fl m"
  define z where "z = S + v"
  define S' where "S' = fl z"
  define T' where "T' = T + m"
  define E' where "E' = E + 1 / 2 ^ 21"
  have n0: "0 \<le> m"
    by (simp add: m_def)
  have rest0: "(0::rat) \<le> of_nat (sum_list ns) / 100"
    by simp
  have "T + m + of_nat (sum_list ns) / 100 \<le> 10 ^ 9"
    using Cons.prems(6) by (simp add: m_def add_divide_distrib)
  then have nb: "m \<le> 10 ^ 9" and Tb: "T \<le> 10 ^ 9"
    using Cons.prems(3) rest0 n0 by linarith+
  have v0: "0 \<le> v"
    unfolding v_def using n0 by (rule fl_nonneg)
  have verr: "\<bar>v - m\<bar> \<le> m / 2 ^ 53 + 1 / 2 ^ 60"
    unfolding v_def using n0 by (rule fl_error_gen)
  have z0: "0 \<le> z"
    using Cons.prems(1) v0 by (simp add: z_def)
  have zerr: "\<bar>S' - z\<bar> \<le> z / 2 ^ 53 + 1 / 2 ^ 60"
    unfolding S'_def using z0 by (rule fl_error_gen)
  have E1: "E \<le> 1"
  proof -
    have "(0::rat) \<le> of_nat (length (n # ns)) / 2 ^ 21"
      by simp
    with Cons.prems(5) show ?thesis
      by linarith
  qed
  have S'0: "0 \<le> S'"
    unfolding S'_def using z0 by (rule fl_nonneg)
  have step: "\<bar>S' - T'\<bar> \<le> E'"
    unfolding T'_def E'_def
    using verr zerr [unfolded z_def] Cons.prems(2) nb Tb E1 n0 by (rule sum_step_arith)
  have T'0: "0 \<le> T'"
    using Cons.prems(3) n0 by (simp add: T'_def)
  have E'0: "0 \<le> E'"
    using Cons.prems(4) by (simp add: E'_def)
  have len: "E' + of_nat (length ns) / 2 ^ 21 = E + of_nat (length (n # ns)) / 2 ^ 21"
    by (simp add: E'_def add_divide_distrib)
  have tot: "T' + of_nat (sum_list ns) / 100 = T + of_nat (sum_list (n # ns)) / 100"
    by (simp add: T'_def m_def add_divide_distrib)
  have p5: "E' + of_nat (length ns) / 2 ^ 21 \<le> 1"
    using Cons.prems(5) by (simp only: len)
  have p6: "T' + of_nat (sum_list ns) / 100 \<le> 10 ^ 9"
    using Cons.prems(6) by (simp only: tot)
  have fold_eq: "foldl add_cents S' ns = foldl add_cents S (n # ns)"
    by (simp add: add_cents_def number_plus_def S'_def z_def v_def m_def)
  have "0 \<le> foldl add_cents S' ns
    \<and> \<bar>foldl add_cents S' ns - (T' + of_nat (sum_list ns) / 100)\<bar>
        \<le> E' + of_nat (length ns) / 2 ^ 21"
    using S'0 step T'0 E'0 p5 p6 by (rule Cons.IH)
  then show ?case
    by (simp only: fold_eq len tot)
qed

subsection \<open>The rendered cart\<close>

lemma toFixed2_cong:
  assumes "0 \<le> x" and "0 \<le> y" and "\<lfloor>x * 100 + 1 / 2\<rfloor> = \<lfloor>y * 100 + 1 / 2\<rfloor>"
  shows "toFixed2 x = toFixed2 y"
  using assms by (simp add: toFixed2_def)

lemma productsWithSubtotal_Cons:
  "productsWithSubtotal (x # xs) =
     (case pi_product x of
        None \<Rightarrow> productsWithSubtotal xs
      | Some p \<Rightarrow>
          \<lparr>row_product = p, row_quantity = pi_quantity x,
           row_subtotal = toFixed2 (number_times (p_price p) (of_int (pi_quantity x)))\<rparr>
          # productsWithSubtotal xs)"
  by (simp add: productsWithSubtotal_def map_filter_simps split: option.splits)

lemma productsWithSubtotal_Nil [simp]: "productsWithSubtotal [] = []"
  by (simp add: productsWithSubtotal_def map_filter_simps)

lemma rows_computed: "list_all computed_row (productsWithSubtotal xs)"
  by (induction xs)
     (auto simp: productsWithSubtotal_Cons computed_row_def split: option.splits)

lemma rows_of_lines:
  "map (\<lambda>r. (p_id (row_product r), row_quantity r))
       (productsWithSubtotal (pc_products (populate cat c)))
     = map (\<lambda>l. (li_product l, li_quantity l))
         (filter (\<lambda>l. li_product l \<in> set (map p_id cat)) (c_products c))
   \<and> list_all (\<lambda>r. row_product r \<in> set cat)
       (productsWithSubtotal (pc_products (populate cat c)))"
proof -
  have "map (\<lambda>r. (p_id (row_product r), row_quantity r))
          (productsWithSubtotal
            (map (\<lambda>x. \<lparr>pi_product = find (\<lambda>p. p_id p = li_product x) cat,
                           pi_quantity = li_quantity x\<rparr>) ls))
        = map (\<lambda>l. (li_product l, li_quantity l))
            (filter (\<lambda>l. li_product l \<in> set (map p_id cat)) ls)
      \<and> list_all (\<lambda>r. row_product r \<in> set cat)
          (productsWithSubtotal
            (map (\<lambda>x. \<lparr>pi_product = find (\<lambda>p. p_id p = li_product x) cat,
                           pi_quantity = li_quantity x\<rparr>) ls))" for ls
  proof (induction ls)
    case Nil
    then show ?case by simp
  next
    case (Cons l ls)
    show ?case
    proof (cases "find (\<lambda>p. p_id p = li_product l) cat")
      case None
      then have "li_product l \<notin> set (map p_id cat)"
        by (auto simp: find_None_iff)
      with None Cons show ?thesis
        by (simp add: productsWithSubtotal_Cons)
    next
      case (Some p)
      then have "p \<in> set cat" and "p_id p = li_product l"
        by (auto dest: find_SomeD)
      then have "li_product l \<in> set (map p_id cat)"
        by force
      with Some Cons \<open>p \<in> set cat\<close> \<open>p_id p = li_product l\<close> show ?thesis
        by (simp add: productsWithSubtotal_Cons)
    qed
  qed
  then show ?thesis
    by (simp add: populate_def)
qed

lemma exact_row:
  assumes "cents_priced p" and "1 \<le> q" and "price_cents p * nat q \<le> 10 ^ 11"
  shows "toFixed2 (number_times (p_price p) (of_int q)) = toFixed2 (p_price p * of_int q)"
    and "toFixed2 (number_times (p_price p) (of_int q))
           = toFixed2 (of_nat (price_cents p * nat q) / 100)"
    and "parseFloat (toFixed2 (number_times (p_price p) (of_int q)))
           = Some (fl (of_nat (price_cents p * nat q) / 100))"
proof -
  let ?c = "price_cents p"
  have p: "p_price p = fl (of_nat ?c / 100)"
    using assms(1) by (simp add: cents_priced_def)
  have "(of_nat ?c :: rat) * of_int q = of_nat (?c * nat q)"
    using assms(2) by simp
  also have "\<dots> \<le> 10 ^ 11"
    using assms(3) by (metis of_nat_le_iff of_nat_numeral of_nat_power)
  finally have b: "(of_nat ?c :: rat) * of_int q \<le> 10 ^ 11" .
  note cp = cents_product [OF p assms(2) b]
  have n: "int ?c * q = int (?c * nat q)"
    using assms(2) by simp
  have f0: "0 \<le> fl (p_price p * of_int q)"
    by (rule cp(3))
  have p0: "0 \<le> p_price p * of_int q"
    unfolding p using assms(2) by (intro mult_nonneg_nonneg fl_nonneg) auto
  have e0: "(0::rat) \<le> of_nat (?c * nat q) / 100"
    by simp
  have ef: "\<lfloor>(of_nat (?c * nat q) / 100 :: rat) * 100 + 1 / 2\<rfloor> = int (?c * nat q)"
    by (intro floor_unique) auto
  show "toFixed2 (number_times (p_price p) (of_int q)) = toFixed2 (p_price p * of_int q)"
    unfolding number_times_def using f0 p0 cp(1,2) by (intro toFixed2_cong) auto
  show "toFixed2 (number_times (p_price p) (of_int q))
           = toFixed2 (of_nat (?c * nat q) / 100)"
    unfolding number_times_def using f0 e0 cp(1) ef n by (intro toFixed2_cong) auto
  have "\<lfloor>fl (p_price p * of_int q) * 100 + 1 / 2\<rfloor> = int (?c * nat q)"
    using cp(1) n by (simp only:)
  then have "nat \<lfloor>fl (p_price p * of_int q) * 100 + 1 / 2\<rfloor> = ?c * nat q"
    by (simp only: nat_int)
  then show "parseFloat (toFixed2 (number_times (p_price p) (of_int q)))
           = Some (fl (of_nat (?c * nat q) / 100))"
    unfolding number_times_def parseFloat_toFixed2 [OF f0] by simp
qed

lemma sum_subtotals_exact:
  assumes "list_all computed_row rows"
    and "list_all (\<lambda>r. cents_priced (row_product r) \<and> 1 \<le> row_quantity r
           \<and> row_cents r \<le> 10 ^ 11) rows"
  shows "foldl (\<lambda>sum p. case sum of
                        None \<Rightarrow> None
                      | Some a \<Rightarrow>
                          (case parseFloat (row_subtotal p) of
                             None \<Rightarrow> None
                           | Some b \<Rightarrow> Some (number_plus a b)))
           (Some S) rows
         = Some (foldl add_cents S (map row_cents rows))"
  using assms
proof (induction rows arbitrary: S)
  case Nil
  then show ?case by simp
next
  case (Cons r rows)
  from Cons.prems have c: "computed_row r" and h: "cents_priced (row_product r)"
    "1 \<le> row_quantity r" "price_cents (row_product r) * nat (row_quantity r) \<le> 10 ^ 11"
    by (simp_all add: row_cents_def)
  have "parseFloat (row_subtotal r) = Some (fl (of_nat (row_cents r) / 100))"
    using exact_row(3) [OF h] c by (simp add: computed_row_def row_cents_def)
  then show ?case
    using Cons by (simp add: add_cents_def)
qed

lemma total_arith:
  fixes t T :: rat
  assumes "\<bar>t - T\<bar> \<le> 1000 / 2 ^ 21"
  shows "\<bar>t * 100 - T * 100\<bar> < 1 / 2"
proof -
  have "t - T \<le> 1000 / 2 ^ 21" and "T - t \<le> 1000 / 2 ^ 21"
    using assms by linarith+
  then have "t * 100 - T * 100 < 1 / 2" and "T * 100 - t * 100 < 1 / 2"
    by simp_all
  then show ?thesis
    by linarith
qed

lemma total_exact:
  assumes "list_all computed_row rows" and "exact_rows rows"
  shows "total_of rows = toFixed2 (of_nat (sum_list (map row_cents rows)) / 100)"
proof -
  let ?ns = "map row_cents rows"
  have sum: "sum_list ?ns \<le> 10 ^ 11" and len: "length rows \<le> 1000"
    and each: "list_all (\<lambda>r. cents_priced (row_product r) \<and> 1 \<le> row_quantity r) rows"
    using assms(2) by (simp_all add: exact_rows_def)
  have "row_cents r \<le> 10 ^ 11" if "r \<in> set rows" for r
  proof -
    have "row_cents r \<le> sum_list ?ns"
      using that member_le_sum_list [of "row_cents r" ?ns] by simp
    with sum show ?thesis
      by linarith
  qed
  with each have all: "list_all (\<lambda>r. cents_priced (row_product r) \<and> 1 \<le> row_quantity r
           \<and> row_cents r \<le> 10 ^ 11) rows"
    by (auto simp: list_all_iff)
  have s: "sum_subtotals rows = Some (foldl add_cents 0 ?ns)"
    unfolding sum_subtotals_def using assms(1) all by (rule sum_subtotals_exact)
  let ?t = "foldl add_cents 0 ?ns"
  let ?T = "(of_nat (sum_list ?ns) :: rat) / 100"
  have l: "(of_nat (length ?ns) :: rat) / 2 ^ 21 \<le> 1000 / 2 ^ 21"
    using len by (simp add: divide_right_mono)
  have b: "(0::rat) + of_nat (sum_list ?ns) / 100 \<le> 10 ^ 9"
  proof -
    have "(of_nat (sum_list ?ns) :: rat) \<le> 10 ^ 11"
      using sum by (metis of_nat_le_iff of_nat_numeral of_nat_power)
    then show ?thesis by simp
  qed
  have "0 \<le> ?t \<and> \<bar>?t - (0 + ?T)\<bar> \<le> 0 + of_nat (length ?ns) / 2 ^ 21"
    using l b by (intro float_sum_error) simp_all
  then have t0: "0 \<le> ?t" and err: "\<bar>?t - ?T\<bar> \<le> 1000 / 2 ^ 21"
    using l by simp_all
  have "\<bar>?t * 100 - ?T * 100\<bar> < 1 / 2"
    using err by (rule total_arith)
  then have "\<bar>?t * 100 - of_int (int (sum_list ?ns))\<bar> < 1 / 2"
    by simp
  then have f: "\<lfloor>?t * 100 + 1 / 2\<rfloor> = int (sum_list ?ns)"
    by (rule floor_nearest)
  have g: "\<lfloor>?T * 100 + 1 / 2\<rfloor> = int (sum_list ?ns)"
    by (intro floor_unique) auto
  have "toFixed2 ?t = toFixed2 ?T"
    using t0 f g by (intro toFixed2_cong) auto
  then show ?thesis
    by (simp add: total_of_def s)
qed

lemma total_of_one:
  "parseFloat (row_subtotal r) = Some b \<Longrightarrow> total_of [r] = toFixed2 (number_plus 0 b)"
  by (simp add: total_of_def sum_subtotals_def)

subsection \<open>Evaluation\<close>

lemma digit_chars:
  "char_of (48::nat) = CHR ''0''" "char_of (49::nat) = CHR ''1''" "char_of (50::nat) = CHR ''2''"
  "char_of (51::nat) = CHR ''3''" "char_of (52::nat) = CHR ''4''" "char_of (53::nat) = CHR ''5''"
  "char_of (54::nat) = CHR ''6''" "char_of (55::nat) = CHR ''7''" "char_of (56::nat) = CHR ''8''"
  "char_of (57::nat) = CHR ''9''"
  by code_simp+

lemma toFixed2_digits:
  assumes "0 \<le> x" and "\<lfloor>x * 100 + 1 / 2\<rfloor> = k" and "digits (nat k) = ds" and "2 < length ds"
  shows "toFixed2 x = take (length ds - 2) ds @ ''.'' @ drop (length ds - 2) ds"
  using assms by (simp add: toFixed2_def Let_def)

section \<open>The claims\<close>

subsection \<open>C2: how the filter is resolved\<close>

text \<open>
  C2, as amended. The two listing endpoints build the same filter, and \<open>category\<close> and
  \<open>status\<close> do not exclude each other: a non-empty \<open>category\<close> sets the category constraint
  to its trimmed value, a supplied \<open>status\<close> sets the availability constraint to whether it
  is \<open>true\<close>, \<open>1\<close> or \<open>yes\<close>, and both constraints are set when both are supplied. The
  \<open>query\<close> heuristic applies only when \<open>query\<close> is non-empty, \<open>category\<close> is absent or
  empty and \<open>status\<close> is absent; then an availability word sets the availability
  constraint and any other value sets the category constraint to the trimmed query.
  Otherwise a constraint is not set.
\<close>

theorem listing_filter_resolution:
  "api_filter q =
     \<lparr>f_category =
        (if truthy (q_category q) then map_option trim (q_category q)
         else if query_applies q \<and> \<not> availability_word (query_word q)
         then map_option trim (q_query q) else None),
      f_status =
        (case q_status q of
           Some status \<Rightarrow> Some (status = ''true'' \<or> status = ''1'' \<or> status = ''yes'')
         | None \<Rightarrow>
             if query_applies q \<and> availability_word (query_word q)
             then Some (query_word q = ''true'' \<or> query_word q = ''disponible'') else None)\<rparr>
   \<and> views_filter q = api_filter q"
proof -
  have "api_filter q =
     \<lparr>f_category =
        (if truthy (q_category q) then map_option trim (q_category q)
         else if query_applies q \<and> \<not> availability_word (query_word q)
         then map_option trim (q_query q) else None),
      f_status =
        (case q_status q of
           Some status \<Rightarrow> Some (status = ''true'' \<or> status = ''1'' \<or> status = ''yes'')
         | None \<Rightarrow>
             if query_applies q \<and> availability_word (query_word q)
             then Some (query_word q = ''true'' \<or> query_word q = ''disponible'') else None)\<rparr>"
    by (cases "q_category q"; cases "q_status q"; cases "q_query q")
       (auto simp: api_filter_def query_applies_def query_word_def availability_word_def
          truthy_def Let_def)
  then show ?thesis
    by (simp add: views_filter_eq_api_filter)
qed

text \<open>
  The claim as it is stated fails: with \<open>category=Laptops\<close> and \<open>status=true\<close> the filter of
  both endpoints constrains the category and the availability, not the category alone.
\<close>

theorem category_and_status_both_constrain:
  "api_filter
     \<lparr>q_limit = None, q_page = None, q_sort = None, q_query = None,
      q_category = Some ''Laptops'', q_status = Some ''true''\<rparr>
     = \<lparr>f_category = Some ''Laptops'', f_status = Some True\<rparr>
   \<and> views_filter
       \<lparr>q_limit = None, q_page = None, q_sort = None, q_query = None,
        q_category = Some ''Laptops'', q_status = Some ''true''\<rparr>
     = \<lparr>f_category = Some ''Laptops'', f_status = Some True\<rparr>
   \<and> api_filter
       \<lparr>q_limit = None, q_page = None, q_sort = None, q_query = None,
        q_category = Some ''Laptops'', q_status = Some ''true''\<rparr>
     \<noteq> \<lparr>f_category = Some ''Laptops'', f_status = None\<rparr>"
  by (simp add: api_filter_def views_filter_def trim_def is_white_space_def truthy_def)

subsection \<open>C3: \<open>updateCart\<close> replaces all line items or none\<close>

text \<open>
  C3. \<open>PUT /api/carts/:cid\<close> on a cart of the store, with a list of items: when an item is
  not valid (its product is not an identifier of a catalog entry, or its quantity is not
  a positive integer) the request fails with status 400 and the store is as it was, the
  cart's line items included; when every item is valid the request succeeds and the cart's
  line items are the given items, in their order.
\<close>

theorem updateCart_all_or_nothing:
  assumes "Cart_findById (carts st) cid = Inr (Some c)"
  shows "(\<not> list_all (item_valid (catalog st)) items \<longrightarrow>
            fst (put_cart cid (JArr items) st) = st
            \<and> http_status (snd (put_cart cid (JArr items) st)) = 400)
       \<and> (list_all (item_valid (catalog st)) items \<longrightarrow>
            http_status (snd (put_cart cid (JArr items) st)) = 200
            \<and> carts (fst (put_cart cid (JArr items) st)) cid
                = Some (c\<lparr>c_products := map line_of_item items\<rparr>))"
proof (cases "list_all (item_valid (catalog st)) items")
  case True
  with assms show ?thesis
    by (simp add: put_cart_def updateCart_def validate_all_valid save_cart_def
        respond_success_def)
next
  case False
  then obtain e where "validate_items (catalog st) items = Inl e"
    using validate_some_invalid by blast
  with False assms show ?thesis
    by (simp add: put_cart_def updateCart_def respond_error_def)
qed

text \<open>
  Two instances on the cart of the example store, after one line item was added to it: a
  list whose second item names a product the catalog does not hold, and a list of two valid
  items.
\<close>

theorem updateCart_all_or_nothing_witness:
  "Cart_findById
      (carts (save_cart ''64c000000000000000000001''
         \<lparr>c_id = ''64c000000000000000000001'',
          c_products = [\<lparr>li_product = ''64b000000000000000000001'', li_quantity = 2\<rparr>]\<rparr> seeded))
      ''64c000000000000000000001''
     = Inr (Some \<lparr>c_id = ''64c000000000000000000001'',
          c_products = [\<lparr>li_product = ''64b000000000000000000001'', li_quantity = 2\<rparr>]\<rparr>)
   \<and> \<not> list_all (item_valid [macbook, galaxy])
         [item ''64b000000000000000000002'' 1, item ''64b0000000000000000000ff'' 1]
   \<and> fst (put_cart ''64c000000000000000000001''
          (JArr [item ''64b000000000000000000002'' 1, item ''64b0000000000000000000ff'' 1])
          (save_cart ''64c000000000000000000001''
             \<lparr>c_id = ''64c000000000000000000001'',
              c_products = [\<lparr>li_product = ''64b000000000000000000001'', li_quantity = 2\<rparr>]\<rparr>
             seeded))
       = save_cart ''64c000000000000000000001''
           \<lparr>c_id = ''64c000000000000000000001'',
            c_products = [\<lparr>li_product = ''64b000000000000000000001'', li_quantity = 2\<rparr>]\<rparr>
           seeded
   \<and> list_all (item_valid [macbook, galaxy])
         [item ''64b000000000000000000002'' 1, item ''64b000000000000000000001'' 3]
   \<and> carts (fst (put_cart ''64c000000000000000000001''
          (JArr [item ''64b000000000000000000002'' 1, item ''64b000000000000000000001'' 3])
          (save_cart ''64c000000000000000000001''
             \<lparr>c_id = ''64c000000000000000000001'',
              c_products = [\<lparr>li_product = ''64b000000000000000000001'', li_quantity = 2\<rparr>]\<rparr>
             seeded))) ''64c000000000000000000001''
       = Some \<lparr>c_id = ''64c000000000000000000001'',
          c_products = [\<lparr>li_product = ''64b000000000000000000002'', li_quantity = 1\<rparr>,
                        \<lparr>li_product = ''64b000000000000000000001'', li_quantity = 3\<rparr>]\<rparr>"
proof -
  let ?c = "\<lparr>c_id = ''64c000000000000000000001'',
      c_products = [\<lparr>li_product = ''64b000000000000000000001'', li_quantity = 2\<rparr>]\<rparr>"
  let ?st = "save_cart ''64c000000000000000000001'' ?c seeded"
  let ?bad = "[item ''64b000000000000000000002'' 1, item ''64b0000000000000000000ff'' 1]"
  let ?good = "[item ''64b000000000000000000002'' 1, item ''64b000000000000000000001'' 3]"
  have cat: "catalog ?st = [macbook, galaxy]"
    by (simp add: save_cart_def seeded_def)
  have found: "Cart_findById (carts ?st) ''64c000000000000000000001'' = Inr (Some ?c)"
    by code_simp
  have bad: "\<not> list_all (item_valid [macbook, galaxy]) ?bad"
    by code_simp
  have good: "list_all (item_valid [macbook, galaxy]) ?good"
    by code_simp
  have lines: "map line_of_item ?good
      = [\<lparr>li_product = ''64b000000000000000000002'', li_quantity = 1\<rparr>,
         \<lparr>li_product = ''64b000000000000000000001'', li_quantity = 3\<rparr>]"
    by code_simp
  have r1: "fst (put_cart ''64c000000000000000000001'' (JArr ?bad) ?st) = ?st"
    using updateCart_all_or_nothing [OF found, of ?bad] bad unfolding cat by blast
  have "carts (fst (put_cart ''64c000000000000000000001'' (JArr ?good) ?st))
          ''64c000000000000000000001''
        = Some (?c\<lparr>c_products := map line_of_item ?good\<rparr>)"
    using updateCart_all_or_nothing [OF found, of ?good] good unfolding cat by blast
  then have r2: "carts (fst (put_cart ''64c000000000000000000001'' (JArr ?good) ?st))
          ''64c000000000000000000001''
        = Some \<lparr>c_id = ''64c000000000000000000001'',
            c_products = [\<lparr>li_product = ''64b000000000000000000002'', li_quantity = 1\<rparr>,
                          \<lparr>li_product = ''64b000000000000000000001'', li_quantity = 3\<rparr>]\<rparr>"
    unfolding lines by simp
  from found bad r1 good r2 show ?thesis
    by blast
qed

subsection \<open>C5: the rendered cart\<close>

text \<open>
  C5, as amended. \<open>GET /carts/:cid\<close> on a cart of the store renders one row for every line
  item whose product is in the catalog, in the order of the line items and with their
  quantities; a line item whose product is not in the catalog is left out, which is not an
  error. When every price is a whole number of cents, every quantity is at least 1, there
  are at most 1000 rows and the subtotals add up to at most \<open>10 ^ 9\<close> (\<open>10 ^ 11\<close> cents),
  each subtotal is the product of price and quantity rounded to two decimals, and the total
  is the sum of the subtotals, written with two decimals.
\<close>

theorem rendered_cart_totals:
  assumes "Cart_findById (carts st) cid = Inr (Some c)"
    and "rows = productsWithSubtotal (pc_products (populate (catalog st) c))"
  shows "get_cart_view cid st
      = Cart_page \<lparr>page_cartId = cid, page_products = rows,
          page_hasProducts = (0 < length rows), page_total = total_of rows\<rparr>
    \<and> map (\<lambda>r. (p_id (row_product r), row_quantity r)) rows
      = map (\<lambda>l. (li_product l, li_quantity l))
          (filter (\<lambda>l. li_product l \<in> set (map p_id (catalog st))) (c_products c))
    \<and> list_all (\<lambda>r. row_product r \<in> set (catalog st)) rows
    \<and> (exact_rows rows \<longrightarrow>
          list_all
            (\<lambda>r. row_subtotal r = toFixed2 (p_price (row_product r) * of_int (row_quantity r))
               \<and> row_subtotal r = toFixed2 (of_nat (row_cents r) / 100))
            rows
          \<and> total_of rows = toFixed2 (of_nat (sum_list (map row_cents rows)) / 100))"
proof (intro conjI impI)
  show "get_cart_view cid st
      = Cart_page \<lparr>page_cartId = cid, page_products = rows,
          page_hasProducts = (0 < length rows), page_total = total_of rows\<rparr>"
    using assms by (simp add: get_cart_view_def Let_def)
  show "map (\<lambda>r. (p_id (row_product r), row_quantity r)) rows
      = map (\<lambda>l. (li_product l, li_quantity l))
          (filter (\<lambda>l. li_product l \<in> set (map p_id (catalog st))) (c_products c))"
    unfolding assms(2) using rows_of_lines [of "catalog st" c] by blast
  have comp: "list_all computed_row rows"
    unfolding assms(2) by (rule rows_computed)
  show "list_all (\<lambda>r. row_product r \<in> set (catalog st)) rows"
    unfolding assms(2) using rows_of_lines [of "catalog st" c] by blast
  assume ex: "exact_rows rows"
  show "total_of rows = toFixed2 (of_nat (sum_list (map row_cents rows)) / 100)"
    using comp ex by (rule total_exact)
  show "list_all
            (\<lambda>r. row_subtotal r = toFixed2 (p_price (row_product r) * of_int (row_quantity r))
               \<and> row_subtotal r = toFixed2 (of_nat (row_cents r) / 100))
            rows"
    unfolding list_all_iff
  proof
    fix r
    assume r: "r \<in> set rows"
    have "row_cents r \<le> sum_list (map row_cents rows)"
      using r member_le_sum_list [of "row_cents r" "map row_cents rows"] by simp
    with ex have b: "price_cents (row_product r) * nat (row_quantity r) \<le> 10 ^ 11"
      unfolding exact_rows_def row_cents_def by linarith
    from ex r have h: "cents_priced (row_product r)" "1 \<le> row_quantity r"
      by (auto simp: exact_rows_def list_all_iff)
    from comp r have c: "computed_row r"
      by (simp add: list_all_iff)
    show "row_subtotal r = toFixed2 (p_price (row_product r) * of_int (row_quantity r))
        \<and> row_subtotal r = toFixed2 (of_nat (row_cents r) / 100)"
      using exact_row(1,2) [OF h b] c by (simp add: computed_row_def row_cents_def)
  qed
qed

text \<open>
  Two instances. The first is the scenario of the specification with a deleted product
  between the two: two units at 10.00, one unit of a product that is not in the catalog,
  one unit at 5.00; the rows are 20.00 and 5.00, the total is 25.00. The second has the
  prices of the example products, 2499.99 and 1299.99, which are not binary fractions.
\<close>

theorem rendered_cart_totals_witness:
  "exact_rows
     [\<lparr>row_product = productA, row_quantity = 2, row_subtotal = ''20.00''\<rparr>,
      \<lparr>row_product = productB, row_quantity = 1, row_subtotal = ''5.00''\<rparr>]
   \<and> get_cart_view ''64c000000000000000000001'' scenario
     = Cart_page
         \<lparr>page_cartId = ''64c000000000000000000001'',
          page_products =
            [\<lparr>row_product = productA, row_quantity = 2, row_subtotal = ''20.00''\<rparr>,
             \<lparr>row_product = productB, row_quantity = 1, row_subtotal = ''5.00''\<rparr>],
          page_hasProducts = True, page_total = ''25.00''\<rparr>
   \<and> exact_rows
     [\<lparr>row_product = macbook, row_quantity = 2, row_subtotal = ''4999.98''\<rparr>,
      \<lparr>row_product = galaxy, row_quantity = 1, row_subtotal = ''1299.99''\<rparr>]
   \<and> get_cart_view ''64c000000000000000000001'' sample_cart
     = Cart_page
         \<lparr>page_cartId = ''64c000000000000000000001'',
          page_products =
            [\<lparr>row_product = macbook, row_quantity = 2, row_subtotal = ''4999.98''\<rparr>,
             \<lparr>row_product = galaxy, row_quantity = 1, row_subtotal = ''1299.99''\<rparr>],
          page_hasProducts = True, page_total = ''6299.97''\<rparr>"
proof -
  let ?c = "\<lparr>c_id = ''64c000000000000000000001'',
           c_products = [\<lparr>li_product = ''64b000000000000000000001'', li_quantity = 2\<rparr>,
                         \<lparr>li_product = ''64b0000000000000000000ff'', li_quantity = 1\<rparr>,
                         \<lparr>li_product = ''64b000000000000000000002'', li_quantity = 1\<rparr>]\<rparr>"
  let ?rows = "[\<lparr>row_product = productA, row_quantity = 2, row_subtotal = ''20.00''\<rparr>,
             \<lparr>row_product = productB, row_quantity = 1, row_subtotal = ''5.00''\<rparr>]"
  have found: "Cart_findById (carts scenario) ''64c000000000000000000001'' = Inr (Some ?c)"
    by code_simp
  have items: "pc_products (populate (catalog scenario) ?c)
      = [\<lparr>pi_product = Some productA, pi_quantity = 2\<rparr>,
         \<lparr>pi_product = None, pi_quantity = 1\<rparr>,
         \<lparr>pi_product = Some productB, pi_quantity = 1\<rparr>]"
    by code_simp
  have prices: "p_price productA = 10" "p_price productB = 5"
    by (simp_all add: productA_def productB_def)
  have products: "number_times 10 2 = 20" "number_times 5 1 = 5"
    by code_simp+
  have f20: "\<lfloor>(20 :: rat) * 100 + 1 / 2\<rfloor> = 2000" and f5: "\<lfloor>(5 :: rat) * 100 + 1 / 2\<rfloor> = 500"
    and f25: "\<lfloor>(25 :: rat) * 100 + 1 / 2\<rfloor> = 2500"
    by code_simp+
  have d20: "digits (nat 2000) = ''2000''" and d5: "digits (nat 500) = ''500''"
    and d25: "digits (nat 2500) = ''2500''"
    by (simp_all add: digits.simps digit_chars)
  have strings: "toFixed2 20 = ''20.00''" "toFixed2 5 = ''5.00''"
      "toFixed2 25 = ''25.00''"
    using toFixed2_digits [OF _ f20 d20] toFixed2_digits [OF _ f5 d5]
      toFixed2_digits [OF _ f25 d25] by simp_all
  have rows: "?rows = productsWithSubtotal (pc_products (populate (catalog scenario) ?c))"
    unfolding items by (simp add: productsWithSubtotal_Cons prices products strings)
  have f10: "\<lfloor>(10 :: rat) * 100 + 1 / 2\<rfloor> = 1000"
    by code_simp
  have cents: "price_cents productA = 1000" "price_cents productB = 500"
    unfolding price_cents_def prices f10 f5 by simp_all
  have "fl 10 = 10" "fl 5 = 5"
    by code_simp+
  then have priced: "cents_priced productA" "cents_priced productB"
    by (simp_all add: cents_priced_def cents prices)
  have sum: "sum_list (map row_cents ?rows) = 2500"
    by (simp add: row_cents_def cents)
  then have exact: "exact_rows ?rows"
    by (simp add: exact_rows_def priced)
  note page = rendered_cart_totals [OF found rows]
  from page exact have "total_of ?rows = toFixed2 (of_nat (sum_list (map row_cents ?rows)) / 100)"
    by blast
  then have total: "total_of ?rows = ''25.00''"
    unfolding sum by (simp add: strings)
  from page have "get_cart_view ''64c000000000000000000001'' scenario
      = Cart_page \<lparr>page_cartId = ''64c000000000000000000001'', page_products = ?rows,
          page_hasProducts = (0 < length ?rows), page_total = total_of ?rows\<rparr>"
    by blast
  then have first: "get_cart_view ''64c000000000000000000001'' scenario
      = Cart_page \<lparr>page_cartId = ''64c000000000000000000001'', page_products = ?rows,
          page_hasProducts = True, page_total = ''25.00''\<rparr>"
    unfolding total by simp
  let ?c' = "\<lparr>c_id = ''64c000000000000000000001'',
           c_products = [\<lparr>li_product = ''64b000000000000000000001'', li_quantity = 2\<rparr>,
                         \<lparr>li_product = ''64b000000000000000000002'', li_quantity = 1\<rparr>]\<rparr>"
  let ?rows' = "[\<lparr>row_product = macbook, row_quantity = 2, row_subtotal = ''4999.98''\<rparr>,
      \<lparr>row_product = galaxy, row_quantity = 1, row_subtotal = ''1299.99''\<rparr>]"
  have found': "Cart_findById (carts sample_cart) ''64c000000000000000000001'' = Inr (Some ?c')"
    by code_simp
  have items': "pc_products (populate (catalog sample_cart) ?c')
      = [\<lparr>pi_product = Some macbook, pi_quantity = 2\<rparr>,
         \<lparr>pi_product = Some galaxy, pi_quantity = 1\<rparr>]"
    by code_simp
  have prices': "p_price macbook = fl (249999 / 100)" "p_price galaxy = fl (129999 / 100)"
    by (simp_all add: macbook_def galaxy_def)
  have positive: "0 \<le> number_times (fl (249999 / 100)) 2"
      "0 \<le> number_times (fl (129999 / 100)) 1"
    by code_simp+
  have fm: "\<lfloor>number_times (fl (249999 / 100)) 2 * 100 + 1 / 2\<rfloor> = 499998"
    and fg: "\<lfloor>number_times (fl (129999 / 100)) 1 * 100 + 1 / 2\<rfloor> = 129999"
    and ft: "\<lfloor>(629997 / 100 :: rat) * 100 + 1 / 2\<rfloor> = 629997"
    by code_simp+
  have dm: "digits (nat 499998) = ''499998''" and dg: "digits (nat 129999) = ''129999''"
    and dt: "digits (nat 629997) = ''629997''"
    by (simp_all add: digits.simps digit_chars)
  have strings': "toFixed2 (number_times (fl (249999 / 100)) 2) = ''4999.98''"
      "toFixed2 (number_times (fl (129999 / 100)) 1) = ''1299.99''"
      "toFixed2 (629997 / 100) = ''6299.97''"
    using toFixed2_digits [OF positive(1) fm dm] toFixed2_digits [OF positive(2) fg dg]
      toFixed2_digits [OF _ ft dt] by simp_all
  have rows': "?rows' = productsWithSubtotal (pc_products (populate (catalog sample_cart) ?c'))"
    unfolding items' by (simp add: productsWithSubtotal_Cons prices' strings')
  have "\<lfloor>fl (249999 / 100) * 100 + 1 / 2\<rfloor> = 249999"
      "\<lfloor>fl (129999 / 100) * 100 + 1 / 2\<rfloor> = 129999"
    by code_simp+
  then have cents': "price_cents macbook = 249999" "price_cents galaxy = 129999"
    unfolding price_cents_def prices' by simp_all
  have priced': "cents_priced macbook" "cents_priced galaxy"
    by (simp_all add: cents_priced_def cents' prices')
  have sum': "sum_list (map row_cents ?rows') = 629997"
    by (simp add: row_cents_def cents')
  then have exact': "exact_rows ?rows'"
    by (simp add: exact_rows_def priced')
  note page' = rendered_cart_totals [OF found' rows']
  from page' exact'
  have "total_of ?rows' = toFixed2 (of_nat (sum_list (map row_cents ?rows')) / 100)"
    by blast
  then have total': "total_of ?rows' = ''6299.97''"
    unfolding sum' by (simp add: strings')
  from page' have "get_cart_view ''64c000000000000000000001'' sample_cart
      = Cart_page \<lparr>page_cartId = ''64c000000000000000000001'', page_products = ?rows',
          page_hasProducts = (0 < length ?rows'), page_total = total_of ?rows'\<rparr>"
    by blast
  then have second: "get_cart_view ''64c000000000000000000001'' sample_cart
      = Cart_page \<lparr>page_cartId = ''64c000000000000000000001'', page_products = ?rows',
          page_hasProducts = True, page_total = ''6299.97''\<rparr>"
    unfolding total' by simp
  from exact first exact' second show ?thesis
    by blast
qed

text \<open>
  The claim as it is stated fails for large prices: three units at \<open>2 ^ 53 + 2\<close> are shown
  with the subtotal \<open>27021597764222984.00\<close>, the product rounded to 53 significant bits,
  while the product of price and quantity rounded to two decimals is
  \<open>27021597764222982.00\<close>.
\<close>

theorem large_subtotal_rounded:
  "get_cart_view ''64c000000000000000000001'' costly_cart
     = Cart_page
         \<lparr>page_cartId = ''64c000000000000000000001'',
          page_products =
            [\<lparr>row_product = costly, row_quantity = 3,
              row_subtotal = ''27021597764222984.00''\<rparr>],
          page_hasProducts = True, page_total = ''27021597764222984.00''\<rparr>
   \<and> p_price costly = 9007199254740994
   \<and> toFixed2 (9007199254740994 * 3) = ''27021597764222982.00''"
proof -
  let ?c = "\<lparr>c_id = ''64c000000000000000000001'',
           c_products = [\<lparr>li_product = ''64b000000000000000000001'', li_quantity = 3\<rparr>]\<rparr>"
  let ?row = "\<lparr>row_product = costly, row_quantity = 3,
              row_subtotal = ''27021597764222984.00''\<rparr>"
  have found: "Cart_findById (carts costly_cart) ''64c000000000000000000001'' = Inr (Some ?c)"
    by code_simp
  have items: "pc_products (populate (catalog costly_cart) ?c)
      = [\<lparr>pi_product = Some costly, pi_quantity = 3\<rparr>]"
    by code_simp
  have price: "p_price costly = 9007199254740994"
    by (simp add: costly_def)
  have product: "number_times 9007199254740994 3 = 27021597764222984"
    by code_simp
  have f: "\<lfloor>(27021597764222984 :: rat) * 100 + 1 / 2\<rfloor> = 2702159776422298400"
    and f': "\<lfloor>(9007199254740994 * 3 :: rat) * 100 + 1 / 2\<rfloor> = 2702159776422298200"
    by code_simp+
  have d: "digits (nat 2702159776422298400) = ''2702159776422298400''"
    and d': "digits (nat 2702159776422298200) = ''2702159776422298200''"
    by (simp_all add: digits.simps digit_chars)
  have computed: "toFixed2 27021597764222984 = ''27021597764222984.00''"
    using toFixed2_digits [OF _ f d] by simp
  have exact: "toFixed2 (9007199254740994 * 3) = ''27021597764222982.00''"
    using toFixed2_digits [OF _ f' d'] by simp
  have rows: "productsWithSubtotal (pc_products (populate (catalog costly_cart) ?c)) = [?row]"
    unfolding items by (simp add: productsWithSubtotal_Cons price product computed)
  have "fl (2702159776422298400 / 100) = 27021597764222984"
    by code_simp
  then have "parseFloat (toFixed2 27021597764222984) = Some 27021597764222984"
    using parseFloat_toFixed2 [of 27021597764222984] unfolding f by simp
  then have read: "parseFloat (row_subtotal ?row) = Some 27021597764222984"
    unfolding computed by simp
  have "number_plus 0 27021597764222984 = 27021597764222984"
    by code_simp
  then have total: "total_of [?row] = ''27021597764222984.00''"
    using total_of_one [OF read] computed by simp
  have "get_cart_view ''64c000000000000000000001'' costly_cart
      = Cart_page \<lparr>page_cartId = ''64c000000000000000000001'', page_products = [?row],
          page_hasProducts = True, page_total = ''27021597764222984.00''\<rparr>"
    using found rows total by (simp add: get_cart_view_def Let_def)
  with price exact show ?thesis
    by blast
qed

subsection \<open>C6: the quantity of \<open>POST /api/carts/:cid/product/:pid\<close>\<close>

text \<open>
  C6, as amended. The route reads the quantity with \<open>parseInt\<close> and falls back to 1: a
  quantity that is missing or does not start with an integer is taken as 1, not rejected,
  and a value that starts with an integer from 1 to \<open>2 ^ 53\<close> is taken as that integer. A
  value read as a negative integer is rejected with status 400 and the store is as it was.
  A value that cannot be converted to a string (the conversion throws a \<open>TypeError\<close>, as
  for an object with a member \<open>toString\<close>) is answered with status 400 and the message of
  that error, and the store is as it was. What the route does with a quantity read as 0 is
  not part of the statement.
\<close>

theorem add_quantity_check:
  "(\<forall>s. ToString v = Inr s \<and> parseInt s = None \<longrightarrow> add_quantity v = Inr 1)
   \<and> (\<forall>s n. ToString v = Inr s \<and> parseInt s = Some n \<and> 1 \<le> n \<and> n \<le> 2 ^ 53 \<longrightarrow>
         add_quantity v = Inr n)
   \<and> (\<forall>s n. ToString v = Inr s \<and> parseInt s = Some n \<and> n < 0 \<longrightarrow>
         add_quantity v = Inl InvalidQuantityError
         \<and> post_cart_product cid pid v st = (st, respond_error 400 QuantityMustBePositive))
   \<and> (\<forall>e. ToString v = Inl e \<longrightarrow>
         e = TypeError \<and> add_quantity v = Inl TypeError
         \<and> post_cart_product cid pid v st = (st, respond_error 400 (ErrorMessage TypeError)))"
proof (intro conjI allI impI)
  fix s
  assume "ToString v = Inr s \<and> parseInt s = None"
  then show "add_quantity v = Inr 1"
    by (simp add: add_quantity_def or_default_def Number_isInteger_def)
next
  fix s n
  assume "ToString v = Inr s \<and> parseInt s = Some n \<and> 1 \<le> n \<and> n \<le> 2 ^ 53"
  then show "add_quantity v = Inr n"
    by (simp add: add_quantity_def or_default_def Number_isInteger_def)
next
  fix s n
  assume n: "ToString v = Inr s \<and> parseInt s = Some n \<and> n < 0"
  then show rejected: "add_quantity v = Inl InvalidQuantityError"
    by (simp add: add_quantity_def or_default_def)
  then show "post_cart_product cid pid v st = (st, respond_error 400 QuantityMustBePositive)"
    by (simp add: post_cart_product_def)
next
  fix e
  assume e: "ToString v = Inl e"
  then show t: "e = TypeError"
    by (rule ToString_error)
  with e show thrown: "add_quantity v = Inl TypeError"
    by (simp add: add_quantity_def)
  then show "post_cart_product cid pid v st = (st, respond_error 400 (ErrorMessage TypeError))"
    by (simp add: post_cart_product_def)
qed

text \<open>
  Instances: no quantity, the string \<open>3\<close>, the number \<open>-2\<close>, and the object
  \<open>{ "toString": 1 }\<close>.
\<close>

theorem add_quantity_check_witness:
  "ToString JUndefined = Inr ''undefined'' \<and> parseInt ''undefined'' = None
   \<and> add_quantity JUndefined = Inr 1
   \<and> ToString (JStr ''3'') = Inr ''3'' \<and> parseInt ''3'' = Some 3
   \<and> add_quantity (JStr ''3'') = Inr 3
   \<and> ToString (JNum (- 2)) = Inr ''-2'' \<and> parseInt ''-2'' = Some (- 2)
   \<and> post_cart_product ''64c000000000000000000001'' ''64b000000000000000000001'' (JNum (- 2))
        seeded
       = (seeded, respond_error 400 QuantityMustBePositive)
   \<and> ToString (JObj [(''toString'', JNum 1)]) = Inl TypeError
   \<and> post_cart_product ''64c000000000000000000001'' ''64b000000000000000000001''
        (JObj [(''toString'', JNum 1)]) seeded
       = (seeded, respond_error 400 (ErrorMessage TypeError))"
proof -
  have a: "ToString JUndefined = Inr ''undefined'' \<and> parseInt ''undefined'' = None"
    by code_simp
  have b: "ToString (JStr ''3'') = Inr ''3'' \<and> parseInt ''3'' = Some 3"
    by code_simp
  have c: "ToString (JNum (- 2)) = Inr ''-2'' \<and> parseInt ''-2'' = Some (- 2)"
    by code_simp
  have d: "ToString (JObj [(''toString'', JNum 1)]) = Inl TypeError"
    by code_simp
  have r1: "add_quantity JUndefined = Inr 1"
    using add_quantity_check [of JUndefined] a by blast
  have "(1::int) \<le> 3 \<and> (3::int) \<le> 2 ^ 53"
    by simp
  then have r2: "add_quantity (JStr ''3'') = Inr 3"
    using add_quantity_check [of "JStr ''3''"] b by blast
  have "(- 2 :: int) < 0"
    by simp
  then have r3: "post_cart_product ''64c000000000000000000001'' ''64b000000000000000000001''
        (JNum (- 2)) seeded = (seeded, respond_error 400 QuantityMustBePositive)"
    using add_quantity_check
      [of "JNum (- 2)" "''64c000000000000000000001''" "''64b000000000000000000001''" seeded] c
    by blast
  have r4: "post_cart_product ''64c000000000000000000001'' ''64b000000000000000000001''
        (JObj [(''toString'', JNum 1)]) seeded
       = (seeded, respond_error 400 (ErrorMessage TypeError))"
    using add_quantity_check
      [of "JObj [(''toString'', JNum 1)]" "''64c000000000000000000001''"
         "''64b000000000000000000001''" seeded] d
    by blast
  from a r1 b r2 c r3 d r4 show ?thesis
    by blast
qed

text \<open>
  The claim as it is stated fails: the quantity \<open>abc\<close> is not rejected, the request is
  handled as the one with the quantity 1, and one unit of the product is added to the cart.
\<close>

theorem non_numeric_quantity_accepted:
  "add_quantity (JStr ''abc'') = Inr 1
   \<and> post_cart_product ''64c000000000000000000001'' ''64b000000000000000000001''
       (JStr ''abc'') seeded
     = post_cart_product ''64c000000000000000000001'' ''64b000000000000000000001''
         (JNum 1) seeded
   \<and> http_status
       (snd (post_cart_product ''64c000000000000000000001'' ''64b000000000000000000001''
          (JStr ''abc'') seeded)) = 200
   \<and> map_option c_products
       (carts (fst (post_cart_product ''64c000000000000000000001'' ''64b000000000000000000001''
          (JStr ''abc'') seeded)) ''64c000000000000000000001'')
     = Some [\<lparr>li_product = ''64b000000000000000000001'', li_quantity = 1\<rparr>]"
proof -
  have a: "add_quantity (JStr ''abc'') = Inr 1"
    by code_simp
  have b: "add_quantity (JNum 1) = Inr 1"
    by code_simp
  have same: "post_cart_product ''64c000000000000000000001'' ''64b000000000000000000001''
       (JStr ''abc'') seeded
     = post_cart_product ''64c000000000000000000001'' ''64b000000000000000000001''
         (JNum 1) seeded"
    by (simp add: post_cart_product_def a b)
  have added: "http_status
       (snd (post_cart_product ''64c000000000000000000001'' ''64b000000000000000000001''
          (JStr ''abc'') seeded)) = 200
   \<and> map_option c_products
       (carts (fst (post_cart_product ''64c000000000000000000001'' ''64b000000000000000000001''
          (JStr ''abc'') seeded)) ''64c000000000000000000001'')
     = Some [\<lparr>li_product = ''64b000000000000000000001'', li_quantity = 1\<rparr>]"
    by code_simp
  from a same added show ?thesis
    by blast
qed

subsection \<open>C7: the two listing endpoints on one query string\<close>

text \<open>
  C7 at \<open>limit=-5&page=-2\<close>: \<open>GET /api/products\<close> asks for page 1 with limit 1,
  \<open>GET /products\<close> asks for page \<open>-2\<close> with limit \<open>-5\<close>. The two endpoints do not compute
  the same page and limit, and the rendered page does not coerce them to 1 or more.
\<close>

theorem view_limit_not_clamped:
  "api_paginate_args
     \<lparr>q_limit = Some ''-5'', q_page = Some ''-2'', q_sort = None, q_query = None,
      q_category = None, q_status = None\<rparr>
     = \<lparr>pa_filter = \<lparr>f_category = None, f_status = None\<rparr>, pa_sort = Unsorted,
        pa_page = 1, pa_limit = 1\<rparr>
   \<and> views_paginate_args
       \<lparr>q_limit = Some ''-5'', q_page = Some ''-2'', q_sort = None, q_query = None,
        q_category = None, q_status = None\<rparr>
     = \<lparr>pa_filter = \<lparr>f_category = None, f_status = None\<rparr>, pa_sort = Unsorted,
        pa_page = - 2, pa_limit = - 5\<rparr>"
  by code_simp

subsection \<open>C8: \<open>removeProduct\<close>\<close>

text \<open>
  C8. \<open>DELETE /api/carts/:cid/products/:pid\<close> on a cart of the store succeeds with status
  200; afterwards the cart's line items are those of other products, in their order; when
  the cart has no line item of the product the store is as it was; and a second removal of
  the same product changes nothing more.
\<close>

theorem removeProduct_idempotent:
  assumes "Cart_findById (carts st) cid = Inr (Some c)"
  shows "http_status (snd (delete_cart_product cid pid st)) = 200
       \<and> map_option c_products (carts (fst (delete_cart_product cid pid st)) cid)
           = Some (filter (\<lambda>l. li_product l \<noteq> pid) (c_products c))
       \<and> (\<not> has_line pid c \<longrightarrow> fst (delete_cart_product cid pid st) = st)
       \<and> fst (delete_cart_product cid pid (fst (delete_cart_product cid pid st)))
           = fst (delete_cart_product cid pid st)"
proof -
  let ?c' = "c\<lparr>c_products := filter (\<lambda>l. li_product l \<noteq> pid) (c_products c)\<rparr>"
  note 1 = delete_cart_product_found [OF assms, of pid]
  from assms have v: "isValidObjectId cid" and f: "carts st cid = Some c"
    by (auto dest: found_carts)
  have 2: "Cart_findById (carts (save_cart cid ?c' st)) cid = Inr (Some ?c')"
    using v by (rule Cart_findById_save)
  have same: "\<not> has_line pid c \<Longrightarrow> ?c' = c"
  proof -
    assume "\<not> has_line pid c"
    then have "filter (\<lambda>l. li_product l \<noteq> pid) (c_products c) = c_products c"
      by (auto simp: has_line_def filter_id_conv)
    then show ?thesis by simp
  qed
  have twice: "fst (delete_cart_product cid pid (save_cart cid ?c' st)) = save_cart cid ?c' st"
    unfolding delete_cart_product_found [OF 2] by (simp add: save_cart_def)
  have st: "fst (delete_cart_product cid pid st) = save_cart cid ?c' st"
    and res: "http_status (snd (delete_cart_product cid pid st)) = 200"
    by (simp_all add: 1 respond_success_def)
  have "carts (save_cart cid ?c' st) cid = Some ?c'"
    by (simp add: save_cart_def)
  moreover have "\<not> has_line pid c \<Longrightarrow> save_cart cid ?c' st = st"
    using same f by (simp add: save_cart_same)
  ultimately show ?thesis
    unfolding st using res twice by simp
qed

text \<open>
  Two instances on a cart with one line item of each example product: the removal of the
  first product, and the removal of a product the cart does not hold.
\<close>

theorem removeProduct_idempotent_witness:
  "Cart_findById
      (carts (save_cart ''64c000000000000000000001''
         \<lparr>c_id = ''64c000000000000000000001'',
          c_products = [\<lparr>li_product = ''64b000000000000000000001'', li_quantity = 2\<rparr>,
                        \<lparr>li_product = ''64b000000000000000000002'', li_quantity = 1\<rparr>]\<rparr> seeded))
      ''64c000000000000000000001''
     = Inr (Some \<lparr>c_id = ''64c000000000000000000001'',
          c_products = [\<lparr>li_product = ''64b000000000000000000001'', li_quantity = 2\<rparr>,
                        \<lparr>li_product = ''64b000000000000000000002'', li_quantity = 1\<rparr>]\<rparr>)
   \<and> map_option c_products
       (carts (fst (delete_cart_product ''64c000000000000000000001'' ''64b000000000000000000001''
          (save_cart ''64c000000000000000000001''
             \<lparr>c_id = ''64c000000000000000000001'',
              c_products = [\<lparr>li_product = ''64b000000000000000000001'', li_quantity = 2\<rparr>,
                            \<lparr>li_product = ''64b000000000000000000002'', li_quantity = 1\<rparr>]\<rparr>
             seeded))) ''64c000000000000000000001'')
     = Some [\<lparr>li_product = ''64b000000000000000000002'', li_quantity = 1\<rparr>]
   \<and> \<not> has_line ''64b0000000000000000000ff''
         \<lparr>c_id = ''64c000000000000000000001'',
          c_products = [\<lparr>li_product = ''64b000000000000000000001'', li_quantity = 2\<rparr>,
                        \<lparr>li_product = ''64b000000000000000000002'', li_quantity = 1\<rparr>]\<rparr>
   \<and> fst (delete_cart_product ''64c000000000000000000001'' ''64b0000000000000000000ff''
          (save_cart ''64c000000000000000000001''
             \<lparr>c_id = ''64c000000000000000000001'',
              c_products = [\<lparr>li_product = ''64b000000000000000000001'', li_quantity = 2\<rparr>,
                            \<lparr>li_product = ''64b000000000000000000002'', li_quantity = 1\<rparr>]\<rparr>
             seeded))
     = save_cart ''64c000000000000000000001''
         \<lparr>c_id = ''64c000000000000000000001'',
          c_products = [\<lparr>li_product = ''64b000000000000000000001'', li_quantity = 2\<rparr>,
                        \<lparr>li_product = ''64b000000000000000000002'', li_quantity = 1\<rparr>]\<rparr>
         seeded"
proof -
  let ?c = "\<lparr>c_id = ''64c000000000000000000001'',
      c_products = [\<lparr>li_product = ''64b000000000000000000001'', li_quantity = 2\<rparr>,
                    \<lparr>li_product = ''64b000000000000000000002'', li_quantity = 1\<rparr>]\<rparr>"
  let ?st = "save_cart ''64c000000000000000000001'' ?c seeded"
  have found: "Cart_findById (carts ?st) ''64c000000000000000000001'' = Inr (Some ?c)"
    by code_simp
  have absent: "\<not> has_line ''64b0000000000000000000ff'' ?c"
    by code_simp
  have rest: "filter (\<lambda>l. li_product l \<noteq> ''64b000000000000000000001'') (c_products ?c)
      = [\<lparr>li_product = ''64b000000000000000000002'', li_quantity = 1\<rparr>]"
    by simp
  have "map_option c_products
       (carts (fst (delete_cart_product ''64c000000000000000000001''
          ''64b000000000000000000001'' ?st)) ''64c000000000000000000001'')
     = Some (filter (\<lambda>l. li_product l \<noteq> ''64b000000000000000000001'') (c_products ?c))"
    using removeProduct_idempotent [OF found, of "''64b000000000000000000001''"] by blast
  then have r1: "map_option c_products
       (carts (fst (delete_cart_product ''64c000000000000000000001''
          ''64b000000000000000000001'' ?st)) ''64c000000000000000000001'')
     = Some [\<lparr>li_product = ''64b000000000000000000002'', li_quantity = 1\<rparr>]"
    unfolding rest .
  have r2: "fst (delete_cart_product ''64c000000000000000000001''
          ''64b0000000000000000000ff'' ?st) = ?st"
    using removeProduct_idempotent [OF found, of "''64b0000000000000000000ff''"] absent
    by blast
  from found r1 absent r2 show ?thesis
    by blast
qed

subsection \<open>C9: a write to the catalog and its broadcast\<close>

text \<open>
  C9, as amended. For each of the requests that write to the catalog (the routes \<open>POST\<close>,
  \<open>PUT\<close> and \<open>DELETE\<close> of \<open>/api/products\<close> and the socket events \<open>addProduct\<close> and
  \<open>deleteProduct\<close>) and whatever the operations of the store are: when the store wrote
  nothing, the catalog is as it was and the request is not answered with success. When it
  wrote and the list of products can be read back, the first event every connected socket
  receives afterwards is that list, which holds every product of the catalog after the
  write, the most recently created first, and an HTTP request is answered with status 200
  or 201. When it wrote and the list cannot be read back, the write stays, no socket
  receives a list (the socket that sent the event receives a \<open>productError\<close>, and nothing
  else is emitted), and an HTTP request is answered with an error status.
\<close>

theorem broadcast_after_mutation:
  "(case written M r (catalog st) of
      None \<Rightarrow>
        catalog (handle M r st) = catalog st \<and> answer M r st \<notin> {Some 200, Some 201}
    | Some cat' \<Rightarrow>
        catalog (handle M r st) = cat'
        \<and> (case pm_find_error M cat' of
              None \<Rightarrow>
                delivered (find_sorted cat') (sockets st) (sockets (handle M r st))
                \<and> answer M r st \<in> {None, Some 200, Some 201}
            | Some e \<Rightarrow>
                sockets (handle M r st) = sockets (error_reply r e st)
                \<and> answer M r st \<in> {None, Some 400, Some 500}))
   \<and> mset (find_sorted cat) = mset cat \<and> newest_first (find_sorted cat)"
proof -
  have "case written M r (catalog st) of
      None \<Rightarrow>
        catalog (handle M r st) = catalog st \<and> answer M r st \<notin> {Some 200, Some 201}
    | Some cat' \<Rightarrow>
        catalog (handle M r st) = cat'
        \<and> (case pm_find_error M cat' of
              None \<Rightarrow>
                delivered (find_sorted cat') (sockets st) (sockets (handle M r st))
                \<and> answer M r st \<in> {None, Some 200, Some 201}
            | Some e \<Rightarrow>
                sockets (handle M r st) = sockets (error_reply r e st)
                \<and> answer M r st \<in> {None, Some 400, Some 500})"
  proof (cases r)
    case (HttpPost body)
    then show ?thesis
      by (auto simp: post_product_def post_product_catch_def Product_find_sorted_def
          respond_error_def respond_success_def delivered_io_emit
          split: sum.splits error.splits option.splits)
  next
    case (HttpPut pid body)
    then show ?thesis
      by (auto simp: put_product_def put_product_catch_def Product_find_sorted_def
          respond_error_def respond_success_def delivered_io_emit
          split: sum.splits error.splits option.splits)
  next
    case (HttpDelete pid)
    then show ?thesis
      by (auto simp: delete_product_def delete_product_catch_def Product_find_sorted_def
          respond_error_def respond_success_def delivered_io_emit
          split: sum.splits error.splits option.splits)
  next
    case (SocketAdd s productData)
    then show ?thesis
      by (auto simp: on_addProduct_def Product_find_sorted_def delivered_io_emit
          delivered_socket_emit sockets_socket_emit_catalog split: sum.splits option.splits)
  next
    case (SocketDelete s productId)
    then show ?thesis
      by (auto simp: on_deleteProduct_def Product_find_sorted_def delivered_io_emit
          delivered_socket_emit sockets_socket_emit_catalog split: sum.splits option.splits)
  qed
  then show ?thesis
    by (simp add: find_sorted_all find_sorted_newest_first)
qed

text \<open>
  An instance: the first example product is deleted through the route; both sockets
  receive the list of the one product left.
\<close>

theorem broadcast_after_mutation_witness:
  "written memory_model (HttpDelete ''64b000000000000000000001'') (catalog seeded)
     = Some [galaxy]
   \<and> pm_find_error memory_model [galaxy] = None
   \<and> catalog (handle memory_model (HttpDelete ''64b000000000000000000001'') seeded) = [galaxy]
   \<and> delivered [galaxy] (sockets seeded)
       (sockets (handle memory_model (HttpDelete ''64b000000000000000000001'') seeded))
   \<and> sockets (handle memory_model (HttpDelete ''64b000000000000000000001'') seeded)
     = [(''s1'', [Products [galaxy]]), (''s2'', [Products [galaxy]])]"
proof -
  have w: "written memory_model (HttpDelete ''64b000000000000000000001'') (catalog seeded)
     = Some [galaxy]"
    by code_simp
  have f: "pm_find_error memory_model [galaxy] = None"
    by (simp add: memory_model_def)
  have s: "find_sorted [galaxy] = [galaxy]"
    by (simp add: find_sorted_def)
  have "catalog (handle memory_model (HttpDelete ''64b000000000000000000001'') seeded) = [galaxy]
    \<and> delivered (find_sorted [galaxy]) (sockets seeded)
       (sockets (handle memory_model (HttpDelete ''64b000000000000000000001'') seeded))"
    using broadcast_after_mutation
      [of memory_model "HttpDelete ''64b000000000000000000001''" seeded]
    unfolding w by (simp add: f)
  then have r: "catalog (handle memory_model (HttpDelete ''64b000000000000000000001'') seeded)
      = [galaxy]
    \<and> delivered [galaxy] (sockets seeded)
       (sockets (handle memory_model (HttpDelete ''64b000000000000000000001'') seeded))"
    unfolding s .
  have e: "sockets (handle memory_model (HttpDelete ''64b000000000000000000001'') seeded)
     = [(''s1'', [Products [galaxy]]), (''s2'', [Products [galaxy]])]"
    by code_simp
  from w f r e show ?thesis
    by blast
qed

text \<open>
  The claim as it is stated fails when the list cannot be read back: the product is
  deleted from the catalog, the request is answered with status 500, and no socket receives
  anything.
\<close>

theorem write_without_broadcast:
  "written unreadable_model (HttpDelete ''64b000000000000000000001'') (catalog seeded)
     = Some [galaxy]
   \<and> catalog (handle unreadable_model (HttpDelete ''64b000000000000000000001'') seeded)
     = [galaxy]
   \<and> answer unreadable_model (HttpDelete ''64b000000000000000000001'') seeded = Some 500
   \<and> sockets (handle unreadable_model (HttpDelete ''64b000000000000000000001'') seeded)
     = [(''s1'', []), (''s2'', [])]"
  by code_simp

subsection \<open>C10: \<open>GET /api/carts/:cid\<close>\<close>

text \<open>
  C10. \<open>GET /api/carts/:cid\<close> on a cart of the store answers with status 200 and the cart
  with every reference resolved: the payload has one item per line item of the cart, in
  their order and with their quantities; the item of a product the catalog holds carries
  that product, the item of a product the catalog does not hold carries no product and is
  not dropped. The payload holds the items only: no subtotal and no total.
\<close>

theorem get_cart_keeps_dangling_lines:
  assumes "Cart_findById (carts st) cid = Inr (Some c)"
  shows "http_status (get_cart cid st) = 200
    \<and> payload (get_cart cid st) = Some (populate (catalog st) c)
    \<and> pc_id (populate (catalog st) c) = c_id c
    \<and> list_all2
        (\<lambda>populated line.
           pi_quantity populated = li_quantity line
           \<and> (case pi_product populated of
                None \<Rightarrow> li_product line \<notin> set (map p_id (catalog st))
              | Some d \<Rightarrow> d \<in> set (catalog st) \<and> p_id d = li_product line))
        (pc_products (populate (catalog st) c)) (c_products c)"
  using assms
  by (auto simp: get_cart_def populate_def respond_success_def Let_def list_all2_map1
      find_None_iff intro!: list_all2_refl split: option.splits dest: find_SomeD)

text \<open>
  An instance: a cart with a line item of the first example product and a line item of a
  product that is not in the catalog.
\<close>

theorem get_cart_keeps_dangling_lines_witness:
  "Cart_findById
      (carts (save_cart ''64c000000000000000000001''
         \<lparr>c_id = ''64c000000000000000000001'',
          c_products = [\<lparr>li_product = ''64b000000000000000000001'', li_quantity = 2\<rparr>,
                        \<lparr>li_product = ''64b0000000000000000000ff'', li_quantity = 1\<rparr>]\<rparr> seeded))
      ''64c000000000000000000001''
     = Inr (Some \<lparr>c_id = ''64c000000000000000000001'',
          c_products = [\<lparr>li_product = ''64b000000000000000000001'', li_quantity = 2\<rparr>,
                        \<lparr>li_product = ''64b0000000000000000000ff'', li_quantity = 1\<rparr>]\<rparr>)
   \<and> payload (get_cart ''64c000000000000000000001''
        (save_cart ''64c000000000000000000001''
           \<lparr>c_id = ''64c000000000000000000001'',
            c_products = [\<lparr>li_product = ''64b000000000000000000001'', li_quantity = 2\<rparr>,
                          \<lparr>li_product = ''64b0000000000000000000ff'', li_quantity = 1\<rparr>]\<rparr>
           seeded))
     = Some \<lparr>pc_id = ''64c000000000000000000001'',
          pc_products = [\<lparr>pi_product = Some macbook, pi_quantity = 2\<rparr>,
                         \<lparr>pi_product = None, pi_quantity = 1\<rparr>]\<rparr>"
proof -
  let ?c = "\<lparr>c_id = ''64c000000000000000000001'',
      c_products = [\<lparr>li_product = ''64b000000000000000000001'', li_quantity = 2\<rparr>,
                    \<lparr>li_product = ''64b0000000000000000000ff'', li_quantity = 1\<rparr>]\<rparr>"
  let ?st = "save_cart ''64c000000000000000000001'' ?c seeded"
  have found: "Cart_findById (carts ?st) ''64c000000000000000000001'' = Inr (Some ?c)"
    by code_simp
  have p: "populate (catalog ?st) ?c
      = \<lparr>pc_id = ''64c000000000000000000001'',
          pc_products = [\<lparr>pi_product = Some macbook, pi_quantity = 2\<rparr>,
                         \<lparr>pi_product = None, pi_quantity = 1\<rparr>]\<rparr>"
    by code_simp
  have "payload (get_cart ''64c000000000000000000001'' ?st) = Some (populate (catalog ?st) ?c)"
    using get_cart_keeps_dangling_lines [OF found] by blast
  then have r: "payload (get_cart ''64c000000000000000000001'' ?st)
      = Some \<lparr>pc_id = ''64c000000000000000000001'',
          pc_products = [\<lparr>pi_product = Some macbook, pi_quantity = 2\<rparr>,
                         \<lparr>pi_product = None, pi_quantity = 1\<rparr>]\<rparr>"
    unfolding p .
  from found r show ?thesis
    by blast
qed

end
